theory Spec2Isabelle
  imports Main "HOL-Library.Word" "HOL-Library.Sublist"
begin

section \<open>Data model\<close>

text \<open>
  The canary controller works on three library types: \<open>intstr.IntOrString\<close>
  (k8s.io/apimachinery), \<open>corev1.Service\<close> and \<open>routev1.Route\<close>. Only the
  fields the controller reads or writes are kept. A Go pointer field is an \<open>option\<close>
  (\<open>None\<close> is nil); a Go slice is a list, so a nil slice and an empty slice coincide,
  which is what \<open>cmp.Equal\<close> with \<open>cmpopts.EquateEmpty()\<close> decides as well.
\<close>

datatype intstr_Type = intstr_Int | intstr_String

record IntOrString =
  Type :: intstr_Type
  IntVal :: "32 word"
  StrVal :: string

record RoutePort =
  TargetPort :: IntOrString

record RouteSpec =
  Host :: string
  To_Name :: string
  Port :: "RoutePort option"

record Route =
  Route_Namespace :: string
  Route_Name :: string
  Route_Labels :: "(string \<times> string) list"
  Route_Spec :: RouteSpec

record ServicePort =
  ServicePort_Name :: string
  ServicePort_Port :: "32 word"
  ServicePort_TargetPort :: IntOrString

record ServiceSpec =
  Ports :: "ServicePort list"

record Service =
  Service_Namespace :: string
  Service_Name :: string
  Service_Spec :: ServiceSpec

text \<open>
  Go errors are values. Each constructor stands for one \<open>fmt.Errorf\<close> site of the
  controller and carries the arguments formatted into the message; \<open>ClientError\<close> is an
  error handed back by the API client.
\<close>

datatype error =
    ServiceHasNoPorts
  | ServiceHasOnlyOnePort
  | FailedToRotateRoutePort error
  | FailedToUpdateCanaryRoute string string error
  | ClientError string
  | RouteHostIsNil
  | ErrorCreatingRequest string
  | ErrorSendingRequestDNS string
  | ErrorSendingRequest string string
  | ErrorReadingBody string
  | ExpectedBodyNotNil
  | ExpectedBodyToContain string string
  | ExpectedRequestPortHeader
  | ReceivedOnWrongPort string string
  | StatusRequestTimedOut int
  | StatusRouteNotAvailable int
  | UnexpectedStatusCode int

text \<open>A run-time panic ends the call; it is not an error value the caller can test.\<close>

datatype goPanic = NilPointerDereference | IntnInvalidArgument | IndexOutOfRange

section \<open>Port rotation (controller.go)\<close>

text \<open>
  \<open>rand.Intn(n)\<close> panics when \<open>n <= 0\<close> and otherwise returns some value in
  \<open>[0, n)\<close>. The state of the random source is the parameter \<open>rnd\<close>: every value
  below \<open>n\<close> is the result for some \<open>rnd\<close>.
\<close>

definition Intn :: "nat \<Rightarrow> nat \<Rightarrow> goPanic + nat" where
  "Intn rnd n = (if n = 0 then Inl IntnInvalidArgument else Inr (rnd mod n))"

text \<open>Indexing a slice panics out of range.\<close>

definition index :: "'a list \<Rightarrow> nat \<Rightarrow> goPanic + 'a" where
  "index xs i = (if i < length xs then Inr (xs ! i) else Inl IndexOutOfRange)"

text \<open>
  The filter loop of \<open>chooseRandomServicePort\<close>. \<open>currentPort\<close> is the pointer
  \<open>route.Spec.Port\<close>; the loop body reads \<open>currentPort.TargetPort\<close>, which panics on
  nil. \<open>cmp.Equal\<close> on two \<open>IntOrString\<close> values compares the three fields.
\<close>

fun filterPorts ::
  "ServicePort list \<Rightarrow> RoutePort option \<Rightarrow> IntOrString list \<Rightarrow> goPanic + IntOrString list"
where
  "filterPorts [] currentPort availablePorts = Inr availablePorts"
| "filterPorts (port # rest) currentPort availablePorts =
     (case currentPort of
        None \<Rightarrow> Inl NilPointerDereference
      | Some cp \<Rightarrow>
          if ServicePort_TargetPort port \<noteq> TargetPort cp
          then filterPorts rest currentPort (availablePorts @ [ServicePort_TargetPort port])
          else filterPorts rest currentPort availablePorts)"

definition chooseRandomServicePort ::
  "nat \<Rightarrow> Service \<Rightarrow> Route \<Rightarrow> goPanic + (Route option \<times> error option)"
where
  "chooseRandomServicePort rnd service route =
     (let servicePorts = Ports (Service_Spec service);
          currentPort = Port (Route_Spec route);
          numServicePorts = length servicePorts
      in if numServicePorts = 0 then Inr (None, Some ServiceHasNoPorts)
         else if numServicePorts = 1 then Inr (None, Some ServiceHasOnlyOnePort)
         else
           (case filterPorts servicePorts currentPort [] of
              Inl p \<Rightarrow> Inl p
            | Inr availablePorts \<Rightarrow>
                (case Intn rnd (length availablePorts) of
                   Inl p \<Rightarrow> Inl p
                 | Inr i \<Rightarrow>
                     (case index availablePorts i of
                        Inl p \<Rightarrow> Inl p
                      | Inr chosen \<Rightarrow>
                          Inr (Some (route\<lparr>Route_Spec :=
                                 (Route_Spec route)\<lparr>Port := Some \<lparr>TargetPort = chosen\<rparr>\<rparr>\<rparr>),
                               None)))))"

section \<open>Strings and headers\<close>

text \<open>
  \<open>strconv.Itoa\<close>: the decimal digits of an integer, with a leading minus sign for a
  negative one.
\<close>

definition digit :: "nat \<Rightarrow> char" where
  "digit d = ''0123456789'' ! d"

function decimal :: "nat \<Rightarrow> string" where
  "decimal n = (if n < 10 then [digit n] else decimal (n div 10) @ [digit (n mod 10)])"
  by pat_completeness auto
termination
  by (relation "measure id") auto

declare decimal.simps [simp del]

definition Itoa :: "int \<Rightarrow> string" where
  "Itoa i = (if i < 0 then CHR ''-'' # decimal (nat (- i)) else decimal (nat i))"

text \<open>
  \<open>IntOrString.String()\<close>: the string value for a value of type String, otherwise
  the integer value printed by \<open>strconv.Itoa\<close>.
\<close>

definition IntOrString_String :: "IntOrString \<Rightarrow> string" where
  "IntOrString_String v =
     (if Type v = intstr_String then StrVal v else Itoa (sint (IntVal v)))"

text \<open>\<open>strings.Contains(s, substr)\<close>: \<open>substr\<close> occurs in \<open>s\<close> at some position.\<close>

fun Contains :: "string \<Rightarrow> string \<Rightarrow> bool" where
  "Contains [] substr = (substr = [])"
| "Contains (c # s) substr = (prefix substr (c # s) \<or> Contains s substr)"

text \<open>
  \<open>http.Header\<close> maps a canonical header name to its values; \<open>Get\<close> returns the
  first value, or the empty string when there is none. \<open>Get("request-port")\<close>
  looks up the canonical form of its key, \<open>Request-Port\<close>.
\<close>

definition Header_Get :: "(string \<rightharpoonup> string list) \<Rightarrow> string \<Rightarrow> string" where
  "Header_Get h key = (case h key of None \<Rightarrow> [] | Some [] \<Rightarrow> [] | Some (v # _) \<Rightarrow> v)"

section \<open>The world outside the controller\<close>

text \<open>
  What the controller changes: its log, the HTTP requests it sends, the objects it hands
  to \<open>client.Update\<close>, and the metrics.

  Modelled from the spec: the file that declares the metrics \<open>CanaryEndpointWrongPortEcho\<close>
  and \<open>CanaryRequestTime\<close> is missing. The spec: "IncrementWrongPortEcho(): counts
  wedged-router detections" and "ObserveLatency(host, milliseconds): recorded only on
  success". The first is a counter that \<open>Inc()\<close> raises by one, the second the list of
  the observations made, each with its host label.
\<close>

datatype logEntry = LogError "error option" string | LogInfo string "(string \<times> string) list"

record world =
  logged :: "logEntry list"
  requests :: "string list"
  updates :: "Route list"
  CanaryEndpointWrongPortEcho :: nat
  CanaryRequestTime :: "(string \<times> int) list"
  reachable :: "string \<rightharpoonup> bool"

definition log_Error :: "error option \<Rightarrow> string \<Rightarrow> world \<Rightarrow> world" where
  "log_Error err msg w = w\<lparr>logged := logged w @ [LogError err msg]\<rparr>"

definition log_Info :: "string \<Rightarrow> (string \<times> string) list \<Rightarrow> world \<Rightarrow> world" where
  "log_Info msg kvs w = w\<lparr>logged := logged w @ [LogInfo msg kvs]\<rparr>"

text \<open>
  Modelled from the spec: the metrics file that defines \<open>SetCanaryRouteReachable\<close> and
  \<open>SetCanaryRouteUnreachable\<close> is missing. The spec: "SetReachable(host),
  SetUnreachable(host): last-known-state signal per host".
\<close>

definition SetCanaryRouteReachable :: "string \<Rightarrow> world \<Rightarrow> world" where
  "SetCanaryRouteReachable host w = w\<lparr>reachable := (reachable w)(host \<mapsto> True)\<rparr>"

definition SetCanaryRouteUnreachable :: "string \<Rightarrow> world \<Rightarrow> world" where
  "SetCanaryRouteUnreachable host w = w\<lparr>reachable := (reachable w)(host \<mapsto> False)\<rparr>"

text \<open>
  What the controller reads during one tick of the polling loop: the answers of the API
  client, the state of the random source, and the answer of the network. \<open>NewRequest\<close>
  gives the error of \<open>http.NewRequest\<close> for a URL, if any; \<open>Do\<close> gives the result of
  \<open>client.Do\<close>, either an error (\<open>DNSError\<close> when \<open>errors.As\<close> finds a
  \<open>net.DNSError\<close> in it) or a response whose \<open>Body\<close> is what \<open>ioutil.ReadAll\<close>
  returns: an error or the bytes read.
\<close>

datatype 'a getResult = Found 'a | NotFound | GetFailed string

datatype doError = DNSError string | TransportError string

record httpResponse =
  StatusCode :: int
  Header :: "string \<rightharpoonup> string list"
  Body :: "string + string"

record env =
  getRoute :: "Route getResult"
  getService :: "Service getResult"
  rnd :: nat
  updateErr :: "string option"
  NewRequest :: "string \<Rightarrow> string option"
  Do :: "string \<Rightarrow> doError + httpResponse"
  totalTime :: int

section \<open>Route and service resources (route.go, service.go)\<close>

text \<open>
  \<open>currentCanaryRoute\<close> (route.go) calls \<open>client.Get\<close> for the canary route:
  a not-found error gives \<open>(false, nil, nil)\<close>, any other error
  \<open>(false, nil, err)\<close>, and an object \<open>(true, route, nil)\<close>. \<open>getRoute\<close> of the
  tick's readings is what \<open>client.Get\<close> answers.
\<close>

definition currentCanaryRoute :: "env \<Rightarrow> bool \<times> Route option \<times> error option" where
  "currentCanaryRoute e =
     (case getRoute e of
        GetFailed msg \<Rightarrow> (False, None, Some (ClientError msg))
      | NotFound \<Rightarrow> (False, None, None)
      | Found route \<Rightarrow> (True, Some route, None))"

text \<open>
  \<open>currentCanaryService\<close> (service.go, the source text that follows
  deployment_test.go) does the same for the canary service: \<open>client.Get\<close>, then
  \<open>(false, nil, nil)\<close> when \<open>errors.IsNotFound(err)\<close>, \<open>(false, nil, err)\<close> on any
  other error, and \<open>(true, current, nil)\<close> otherwise. \<open>getService\<close> of the tick's
  readings is what \<open>client.Get\<close> answers.
\<close>

definition currentCanaryService :: "env \<Rightarrow> bool \<times> Service option \<times> error option" where
  "currentCanaryService e =
     (case getService e of
        GetFailed msg \<Rightarrow> (False, None, Some (ClientError msg))
      | NotFound \<Rightarrow> (False, None, None)
      | Found service \<Rightarrow> (True, Some service, None))"

text \<open>
  \<open>cmp.Equal(current.Spec, expected.Spec, cmpopts.EquateEmpty())\<close> compares the two
  specs field by field; on this data model that is equality.
\<close>

definition canaryRouteChanged :: "Route \<Rightarrow> Route \<Rightarrow> bool \<times> Route option" where
  "canaryRouteChanged current expected =
     (let changed = False;
          updated = current;
          (changed, updated) =
             (if Route_Spec current \<noteq> Route_Spec expected
              then (True, updated\<lparr>Route_Spec := Route_Spec expected\<rparr>)
              else (changed, updated))
      in if \<not> changed then (False, None) else (True, Some updated))"

text \<open>
  \<open>client.Update\<close> is called with the changed route; \<open>updateErr\<close> of the tick's
  readings is the error it returns, if any. \<open>canaryRouteChanged\<close> never reports a
  change without a route, so the branch for that case is never taken.
\<close>

definition updateCanaryRoute ::
  "env \<Rightarrow> world \<Rightarrow> Route \<Rightarrow> Route \<Rightarrow> (bool \<times> error option) \<times> world"
where
  "updateCanaryRoute e w current desired =
     (case canaryRouteChanged current desired of
        (changed, updated) \<Rightarrow>
          if \<not> changed then ((False, None), w)
          else
            (case updated of
               None \<Rightarrow> ((False, None), w)
             | Some u \<Rightarrow>
                 (let w1 = w\<lparr>updates := updates w @ [u]\<rparr>
                  in case updateErr e of
                       Some msg \<Rightarrow>
                         ((False, Some (FailedToUpdateCanaryRoute (Route_Namespace u)
                                          (Route_Name u) (ClientError msg))), w1)
                     | None \<Rightarrow>
                         ((True, None),
                          log_Info ''updated canary route''
                            [(''namespace'', Route_Namespace u), (''name'', Route_Name u)] w1))))"

section \<open>Rotation and probe (controller.go)\<close>

text \<open>
  Had \<open>chooseRandomServicePort\<close> returned neither a route nor an error,
  \<open>updateCanaryRoute\<close> would read the \<open>Spec\<close> of a nil route.
\<close>

definition rotateRouteEndpoint ::
  "env \<Rightarrow> world \<Rightarrow> Service \<Rightarrow> Route \<Rightarrow> goPanic + ((Route option \<times> error option) \<times> world)"
where
  "rotateRouteEndpoint e w service current =
     (case chooseRandomServicePort (rnd e) service current of
        Inl p \<Rightarrow> Inl p
      | Inr (updated, Some err) \<Rightarrow> Inr ((None, Some (FailedToRotateRoutePort err)), w)
      | Inr (None, None) \<Rightarrow> Inl NilPointerDereference
      | Inr (Some updated, None) \<Rightarrow>
          (case updateCanaryRoute e w current updated of
             ((_, Some err), w1) \<Rightarrow> Inr ((Some current, Some err), w1)
           | ((_, None), w1) \<Rightarrow> Inr ((Some updated, None), w1)))"

text \<open>
  A request is known by its URL. \<open>testRouteEndpoint\<close> returns at the first check that
  fails; the request counts as sent once \<open>client.Do\<close> is called, whatever it returns.
\<close>

definition createRequest :: "env \<Rightarrow> string \<Rightarrow> string \<Rightarrow> string + string" where
  "createRequest e host pre =
     (let url = pre @ host
      in case NewRequest e url of Some msg \<Rightarrow> Inl msg | None \<Rightarrow> Inr url)"

definition expectedBodyContents :: string where
  "expectedBodyContents = ''Hello OpenShift!''"

definition testRouteEndpoint ::
  "env \<Rightarrow> world \<Rightarrow> Route \<Rightarrow> goPanic + ((bool \<times> error option) \<times> world)"
where
  "testRouteEndpoint e w route =
     (let host = Host (Route_Spec route)
      in if length host = 0 then Inr ((False, Some RouteHostIsNil), w)
         else
           (case createRequest e host ''http://'' of
              Inl msg \<Rightarrow> Inr ((False, Some (ErrorCreatingRequest msg)), w)
            | Inr request \<Rightarrow>
                (let w1 = w\<lparr>requests := requests w @ [request]\<rparr>
                 in case Do e request of
                      Inl (DNSError msg) \<Rightarrow> Inr ((False, Some (ErrorSendingRequestDNS msg)), w1)
                    | Inl (TransportError msg) \<Rightarrow>
                        Inr ((False, Some (ErrorSendingRequest host msg)), w1)
                    | Inr response \<Rightarrow>
                        (case Body response of
                           Inl msg \<Rightarrow> Inr ((False, Some (ErrorReadingBody msg)), w1)
                         | Inr body \<Rightarrow>
                             if length body = 0 then Inr ((False, Some ExpectedBodyNotNil), w1)
                             else if \<not> Contains body expectedBodyContents
                             then Inr ((False,
                                        Some (ExpectedBodyToContain expectedBodyContents body)), w1)
                             else
                               (let recPort = Header_Get (Header response) ''Request-Port''
                                in if length recPort = 0
                                   then Inr ((False, Some ExpectedRequestPortHeader), w1)
                                   else
                                     (case Port (Route_Spec route) of
                                        None \<Rightarrow> Inl NilPointerDereference
                                      | Some port \<Rightarrow>
                                          (let routePortStr = IntOrString_String (TargetPort port)
                                           in if \<not> Contains routePortStr recPort
                                              then Inr ((False,
                                                         Some (ReceivedOnWrongPort recPort
                                                                 routePortStr)),
                                                        w1\<lparr>CanaryEndpointWrongPortEcho :=
                                                             CanaryEndpointWrongPortEcho w1 + 1\<rparr>)
                                              else
                                                (let status = StatusCode response
                                                 in if status = 200
                                                    then Inr ((True, None),
                                                              w1\<lparr>CanaryRequestTime :=
                                                                   CanaryRequestTime w1 @
                                                                   [(host, totalTime e)]\<rparr>)
                                                    else if status = 408
                                                    then Inr ((False,
                                                               Some (StatusRequestTimedOut status)),
                                                              w1)
                                                    else if status = 503
                                                    then Inr ((False,
                                                               Some (StatusRouteNotAvailable
                                                                       status)), w1)
                                                    else Inr ((False,
                                                               Some (UnexpectedStatusCode status)),
                                                              w1)))))))))"

section \<open>The polling loop (controller.go)\<close>

text \<open>
  One run of the function that \<open>wait.Until\<close> calls every minute. \<open>count\<close> is the
  variable the closure captures; it and the world are the state a tick changes. A panic
  in the tick ends the loop.
\<close>

definition tick :: "env \<Rightarrow> int \<times> world \<Rightarrow> goPanic + (int \<times> world)" where
  "tick e s =
     (case s of (count, w) \<Rightarrow>
      (case currentCanaryRoute e of
         (haveRoute, route, err) \<Rightarrow>
           if err \<noteq> None \<or> \<not> haveRoute
           then Inr (count, log_Error err ''failed to get canary route'' w)
           else
             (case route of
                None \<Rightarrow> Inl NilPointerDereference
              | Some route \<Rightarrow>
                  if count = 6
                  then
                    (case currentCanaryService e of
                       (haveService, service, err) \<Rightarrow>
                         if err \<noteq> None \<or> \<not> haveService
                         then Inr (count, log_Error err ''failed to get canary service'' w)
                         else
                           (case service of
                              None \<Rightarrow> Inl NilPointerDereference
                            | Some service \<Rightarrow>
                                (case rotateRouteEndpoint e w service route of
                                   Inl p \<Rightarrow> Inl p
                                 | Inr ((route', err), w1) \<Rightarrow>
                                     if err \<noteq> None
                                     then Inr (count,
                                            log_Error err
                                              ''failed to rotate canary route endpoint'' w1)
                                     else
                                       (case route' of
                                          None \<Rightarrow> Inl NilPointerDereference
                                        | Some r \<Rightarrow>
                                            (case Port (Route_Spec r) of
                                               None \<Rightarrow> Inl NilPointerDereference
                                             | Some port \<Rightarrow>
                                                 Inr (0,
                                                   log_Info ''Rotate route endpoint, now on''
                                                     [(''port'',
                                                       IntOrString_String (TargetPort port))]
                                                     w1))))))
                  else
                    (case testRouteEndpoint e w route of
                       Inl p \<Rightarrow> Inl p
                     | Inr ((success, err), w1) \<Rightarrow>
                         (let host = Host (Route_Spec route)
                          in if \<not> success
                             then Inr (count,
                                    SetCanaryRouteUnreachable host
                                      (log_Error err ''canary route check:'' w1))
                             else Inr (count + 1,
                                    SetCanaryRouteReachable host
                                      (log_Info ''Successful canary check?'' [] w1)))))))"

text \<open>
  The loop over the ticks that happen before the stop channel closes, one environment
  per tick.
\<close>

fun run :: "env list \<Rightarrow> int \<times> world \<Rightarrow> goPanic + (int \<times> world)" where
  "run [] s = Inr s"
| "run (e # es) s = (case tick e s of Inl p \<Rightarrow> Inl p | Inr s' \<Rightarrow> run es s')"

definition startCanaryRoutePolling :: "env list \<Rightarrow> world \<Rightarrow> goPanic + (int \<times> world)" where
  "startCanaryRoutePolling es w = (let count = 0 in run es (count, w))"

section \<open>Notions the properties are stated with\<close>

text \<open>The target ports a service offers, in order.\<close>

definition targetPorts :: "Service \<Rightarrow> IntOrString list" where
  "targetPorts service = map ServicePort_TargetPort (Ports (Service_Spec service))"

text \<open>
  The URL \<open>createRequest\<close> builds for a route, the world after the request to it was
  sent, and the value of the \<open>request-port\<close> header of a response.
\<close>

definition probeURL :: "Route \<Rightarrow> string" where
  "probeURL route = ''http://'' @ Host (Route_Spec route)"

definition sent :: "world \<Rightarrow> Route \<Rightarrow> world" where
  "sent w route = w\<lparr>requests := requests w @ [probeURL route]\<rparr>"

definition recPort :: "httpResponse \<Rightarrow> string" where
  "recPort response = Header_Get (Header response) ''Request-Port''"

text \<open>The errors that come from the switch on the status code.\<close>

fun statusError :: "error \<Rightarrow> bool" where
  "statusError (StatusRequestTimedOut status) = True"
| "statusError (StatusRouteNotAvailable status) = True"
| "statusError (UnexpectedStatusCode status) = True"
| "statusError err = False"

section \<open>Sample inputs\<close>

text \<open>
  The three ports of \<open>TestChooseRandomServicePort\<close>: only \<open>StrVal\<close> is set, so
  \<open>Type\<close> and \<open>IntVal\<close> have their zero values.
\<close>

definition tPort1 :: IntOrString where
  "tPort1 = \<lparr>Type = intstr_Int, IntVal = 0, StrVal = ''80''\<rparr>"

definition tPort2 :: IntOrString where
  "tPort2 = \<lparr>Type = intstr_Int, IntVal = 0, StrVal = ''8080''\<rparr>"

definition tPort3 :: IntOrString where
  "tPort3 = \<lparr>Type = intstr_Int, IntVal = 0, StrVal = ''8888''\<rparr>"

text \<open>A service with the given target ports, and a route on a host and a target port.\<close>

definition servicePort :: "IntOrString \<Rightarrow> ServicePort" where
  "servicePort t = \<lparr>ServicePort_Name = [], ServicePort_Port = 0, ServicePort_TargetPort = t\<rparr>"

definition serviceWith :: "IntOrString list \<Rightarrow> Service" where
  "serviceWith ts = \<lparr>Service_Namespace = [], Service_Name = [],
     Service_Spec = \<lparr>Ports = map servicePort ts\<rparr>\<rparr>"

definition routeOn :: "string \<Rightarrow> IntOrString \<Rightarrow> Route" where
  "routeOn h t = \<lparr>Route_Namespace = [], Route_Name = [], Route_Labels = [],
     Route_Spec = \<lparr>Host = h, To_Name = [], Port = Some \<lparr>TargetPort = t\<rparr>\<rparr>\<rparr>"

text \<open>
  The world before anything happened; a target port given by name and one given by
  number; a response that echoes a port in its \<open>request-port\<close> header; and the
  readings of one tick: the route and the service fetched, the error of the route update
  if any, and the answer to the probe. The random source is at 0, every request can be
  created, and the request takes 12 ms.
\<close>

definition world0 :: world where
  "world0 = \<lparr>logged = [], requests = [], updates = [], CanaryEndpointWrongPortEcho = 0,
     CanaryRequestTime = [], reachable = Map.empty\<rparr>"

definition strPort :: "string \<Rightarrow> IntOrString" where
  "strPort s = \<lparr>Type = intstr_String, IntVal = 0, StrVal = s\<rparr>"

definition intPort :: "32 word \<Rightarrow> IntOrString" where
  "intPort n = \<lparr>Type = intstr_Int, IntVal = n, StrVal = []\<rparr>"

definition echo :: "int \<Rightarrow> string \<Rightarrow> string \<Rightarrow> doError + httpResponse" where
  "echo status body port =
     Inr \<lparr>StatusCode = status, Header = [''Request-Port'' \<mapsto> [port]], Body = Inr body\<rparr>"

definition envWith ::
  "Route getResult \<Rightarrow> Service getResult \<Rightarrow> string option \<Rightarrow> (doError + httpResponse) \<Rightarrow> env"
where
  "envWith r s u d = \<lparr>getRoute = r, getService = s, rnd = 0, updateErr = u,
     NewRequest = (\<lambda>url. None), Do = (\<lambda>url. d), totalTime = 12\<rparr>"

text \<open>
  The canary route on port 8080 and the same route after a rotation to port 8888; a tick
  that finds the route and probes it; a tick that finds the route and a service with the
  given ports; and a tick whose probe succeeds.
\<close>

definition canaryRoute :: Route where
  "canaryRoute = routeOn ''canary.example'' (strPort ''8080'')"

definition probeEnv :: "(doError + httpResponse) \<Rightarrow> env" where
  "probeEnv d = envWith (Found canaryRoute) NotFound None d"

definition rotateEnv :: "IntOrString list \<Rightarrow> string option \<Rightarrow> env" where
  "rotateEnv ts u =
     envWith (Found canaryRoute) (Found (serviceWith ts)) u (echo 200 ''Hello OpenShift!'' ''8080'')"

definition rotatedRoute :: Route where
  "rotatedRoute = routeOn ''canary.example'' (strPort ''8888'')"

definition twoPorts :: "IntOrString list" where
  "twoPorts = [strPort ''8080'', strPort ''8888'']"

definition goodEnv :: env where
  "goodEnv = probeEnv (echo 200 ''Hello OpenShift!'' ''8080'')"

section \<open>Properties of the port rotation\<close>

lemma filterPorts_Some:
  "filterPorts ps (Some cp) acc =
     Inr (acc @ filter (\<lambda>t. t \<noteq> TargetPort cp) (map ServicePort_TargetPort ps))"
  by (induction ps arbitrary: acc) simp_all

lemma filterPorts_None:
  "filterPorts ps None acc = (if ps = [] then Inr acc else Inl NilPointerDereference)"
  by (cases ps) simp_all

lemma chooseRandomServicePort_Some:
  assumes "Port (Route_Spec route) = Some cp"
    and "2 \<le> length (Ports (Service_Spec service))"
  shows "chooseRandomServicePort seed service route =
     (let availablePorts = filter (\<lambda>t. t \<noteq> TargetPort cp) (targetPorts service)
      in if availablePorts = [] then Inl IntnInvalidArgument
         else Inr (Some (route\<lparr>Route_Spec := (Route_Spec route)\<lparr>Port :=
                     Some \<lparr>TargetPort = availablePorts ! (seed mod length availablePorts)\<rparr>\<rparr>\<rparr>),
                   None))"
  using assms
  by (auto simp: chooseRandomServicePort_def filterPorts_Some targetPorts_def Intn_def index_def
      Let_def filter_map)

lemma distinct_ports_alternative:
  assumes "1 < card (set ts)"
  shows "filter (\<lambda>t. t \<noteq> c) ts \<noteq> []"
proof
  assume "filter (\<lambda>t. t \<noteq> c) ts = []"
  then have "set ts \<subseteq> {c}"
    by (auto simp: filter_empty_conv)
  then have "card (set ts) \<le> card {c}"
    by (intro card_mono) simp_all
  with assms show False by simp
qed

text \<open>
  Claim C1. When the service has at least two ports, more than one distinct target port
  among them, and the route has a current port, \<open>chooseRandomServicePort\<close> returns the
  route with a new \<open>Spec.Port\<close> whose target port is one of the service's target ports
  and differs from the current one, whatever the random source gives and however often
  the current port is repeated in the list.
\<close>

theorem chooseRandomServicePort_new_port:
  assumes "2 \<le> length (Ports (Service_Spec service))"
    and "1 < card (set (targetPorts service))"
    and "Port (Route_Spec route) = Some cp"
  shows "\<exists>chosen. chooseRandomServicePort seed service route =
           Inr (Some (route\<lparr>Route_Spec := (Route_Spec route)\<lparr>Port :=
                        Some \<lparr>TargetPort = chosen\<rparr>\<rparr>\<rparr>), None)
         \<and> chosen \<in> set (targetPorts service)
         \<and> chosen \<noteq> TargetPort cp"
proof -
  let ?av = "filter (\<lambda>t. t \<noteq> TargetPort cp) (targetPorts service)"
  have ne: "?av \<noteq> []"
    using assms(2) by (rule distinct_ports_alternative)
  then have "seed mod length ?av < length ?av"
    by simp
  then have "?av ! (seed mod length ?av) \<in> set ?av"
    by (rule nth_mem)
  then have "?av ! (seed mod length ?av) \<in> set (targetPorts service)"
    and "?av ! (seed mod length ?av) \<noteq> TargetPort cp"
    by simp_all
  moreover have "chooseRandomServicePort seed service route =
      Inr (Some (route\<lparr>Route_Spec := (Route_Spec route)\<lparr>Port :=
                   Some \<lparr>TargetPort = ?av ! (seed mod length ?av)\<rparr>\<rparr>\<rparr>), None)"
    using ne by (simp add: chooseRandomServicePort_Some [OF assms(3) assms(1)] Let_def)
  ultimately show ?thesis by blast
qed







theorem chooseRandomServicePort_new_port_witness:
  "2 \<le> length (Ports (Service_Spec (serviceWith [tPort1, tPort1, tPort2])))
   \<and> 1 < card (set (targetPorts (serviceWith [tPort1, tPort1, tPort2])))
   \<and> chooseRandomServicePort 5 (serviceWith [tPort1, tPort1, tPort2]) (routeOn [] tPort1) =
       Inr (Some (routeOn [] tPort2), None)"
proof -
  have len: "2 \<le> length (Ports (Service_Spec (serviceWith [tPort1, tPort1, tPort2])))"
    by (simp add: serviceWith_def)
  have card: "1 < card (set (targetPorts (serviceWith [tPort1, tPort1, tPort2])))"
    by (simp add: serviceWith_def targetPorts_def servicePort_def tPort1_def tPort2_def)
  have port: "Port (Route_Spec (routeOn [] tPort1)) = Some \<lparr>TargetPort = tPort1\<rparr>"
    by (simp add: routeOn_def)
  from chooseRandomServicePort_new_port [OF len card port, of 5]
  obtain chosen where
    res: "chooseRandomServicePort 5 (serviceWith [tPort1, tPort1, tPort2]) (routeOn [] tPort1) =
      Inr (Some ((routeOn [] tPort1)\<lparr>Route_Spec := (Route_Spec (routeOn [] tPort1))\<lparr>Port :=
                        Some \<lparr>TargetPort = chosen\<rparr>\<rparr>\<rparr>), None)"
    and mem: "chosen \<in> set (targetPorts (serviceWith [tPort1, tPort1, tPort2]))"
    and new: "chosen \<noteq> TargetPort \<lparr>TargetPort = tPort1\<rparr>"
    by blast
  from mem new have "chosen = tPort2"
    by (auto simp: serviceWith_def targetPorts_def servicePort_def)
  with res len card show ?thesis
    by (simp add: routeOn_def)
qed

lemma chooseRandomServicePort_short:
  "length (Ports (Service_Spec service)) = 0 \<Longrightarrow>
     chooseRandomServicePort seed service route = Inr (None, Some ServiceHasNoPorts)"
  "length (Ports (Service_Spec service)) = 1 \<Longrightarrow>
     chooseRandomServicePort seed service route = Inr (None, Some ServiceHasOnlyOnePort)"
  by (auto simp: chooseRandomServicePort_def Let_def)

lemma chooseRandomServicePort_long_no_error:
  assumes "2 \<le> length (Ports (Service_Spec service))"
  shows "chooseRandomServicePort seed service route \<noteq> Inr (r, Some err)"
proof (cases "Port (Route_Spec route)")
  case None
  with assms show ?thesis
    by (auto simp: chooseRandomServicePort_def Let_def filterPorts_None)
next
  case (Some cp)
  show ?thesis
    by (simp add: chooseRandomServicePort_Some [OF Some assms] Let_def)
qed

text \<open>
  Claim C5. \<open>chooseRandomServicePort\<close> returns the no-ports error exactly for an empty
  port list, the single-port error exactly for a list of one element, and an error of any
  kind exactly in these two cases: a list of two or more elements never gives an error.
\<close>

theorem chooseRandomServicePort_error_iff:
  "(chooseRandomServicePort seed service route = Inr (None, Some ServiceHasNoPorts)
      \<longleftrightarrow> length (Ports (Service_Spec service)) = 0)
   \<and> (chooseRandomServicePort seed service route = Inr (None, Some ServiceHasOnlyOnePort)
      \<longleftrightarrow> length (Ports (Service_Spec service)) = 1)
   \<and> ((\<exists>r err. chooseRandomServicePort seed service route = Inr (r, Some err))
      \<longleftrightarrow> length (Ports (Service_Spec service)) = 0 \<or> length (Ports (Service_Spec service)) = 1)"
proof -
  consider "length (Ports (Service_Spec service)) = 0"
    | "length (Ports (Service_Spec service)) = 1"
    | "2 \<le> length (Ports (Service_Spec service))"
    by linarith
  then show ?thesis
  proof cases
    case 1
    then show ?thesis
      by (simp add: chooseRandomServicePort_short(1))
  next
    case 2
    then show ?thesis
      by (simp add: chooseRandomServicePort_short(2))
  next
    case 3
    then show ?thesis
      using chooseRandomServicePort_long_no_error [OF 3, of seed route] by auto
  qed
qed

theorem chooseRandomServicePort_error_iff_witness:
  "chooseRandomServicePort 3 (serviceWith []) (routeOn [] tPort1) = Inr (None, Some ServiceHasNoPorts)
   \<and> chooseRandomServicePort 3 (serviceWith [tPort1]) (routeOn [] tPort1) =
       Inr (None, Some ServiceHasOnlyOnePort)
   \<and> (\<nexists>r err. chooseRandomServicePort 3 (serviceWith [tPort2, tPort3]) (routeOn [] tPort1) =
       Inr (r, Some err))"
  using chooseRandomServicePort_error_iff [of 3 "serviceWith []" "routeOn [] tPort1"]
    chooseRandomServicePort_error_iff [of 3 "serviceWith [tPort1]" "routeOn [] tPort1"]
    chooseRandomServicePort_error_iff [of 3 "serviceWith [tPort2, tPort3]" "routeOn [] tPort1"]
  by (simp add: serviceWith_def)

lemma only_alternative:
  assumes "set ts = {A, B}" and "A \<noteq> B"
  shows "set (filter (\<lambda>t. t \<noteq> A) ts) = {B}"
proof -
  have "set (filter (\<lambda>t. t \<noteq> A) ts) = {t \<in> set ts. t \<noteq> A}"
    by simp
  also have "\<dots> = {t \<in> {A, B}. t \<noteq> A}"
    by (simp only: assms(1))
  also have "\<dots> = {B}"
    using assms(2) by blast
  finally show ?thesis .
qed

lemma nth_of_constant_list:
  assumes "set xs = {b}"
  shows "xs ! (k mod length xs) = b"
proof -
  from assms have "xs \<noteq> []"
    by auto
  then have "xs ! (k mod length xs) \<in> set xs"
    by (intro nth_mem) simp
  with assms show ?thesis
    by simp
qed


text \<open>
  Claim C7. When the service's target ports are exactly \<open>A\<close> and \<open>B\<close> and the route
  targets \<open>A\<close>, every call returns the route retargeted to \<open>B\<close>, for every state of the
  random source.
\<close>

theorem chooseRandomServicePort_single_alternative:
  assumes "set (targetPorts service) = {A, B}"
    and "A \<noteq> B"
    and "Port (Route_Spec route) = Some \<lparr>TargetPort = A\<rparr>"
  shows "chooseRandomServicePort seed service route =
     Inr (Some (route\<lparr>Route_Spec := (Route_Spec route)\<lparr>Port := Some \<lparr>TargetPort = B\<rparr>\<rparr>\<rparr>), None)"
proof -
  let ?av = "filter (\<lambda>t. t \<noteq> A) (targetPorts service)"
  have "card (set (targetPorts service)) = 2"
    using assms(1,2) by simp
  then have len: "2 \<le> length (Ports (Service_Spec service))"
    using card_length [of "targetPorts service"] by (simp add: targetPorts_def)
  have av: "set ?av = {B}"
    using assms(1,2) by (rule only_alternative)
  have ne: "?av \<noteq> []"
  proof
    assume e: "?av = []"
    have "set ?av = {}"
      unfolding e by simp
    with av show False
      by simp
  qed
  have pick: "?av ! (seed mod length ?av) = B"
    using av by (rule nth_of_constant_list)
  have "chooseRandomServicePort seed service route =
      Inr (Some (route\<lparr>Route_Spec := (Route_Spec route)\<lparr>Port :=
                   Some \<lparr>TargetPort = ?av ! (seed mod length ?av)\<rparr>\<rparr>\<rparr>), None)"
    using ne by (simp add: chooseRandomServicePort_Some [OF assms(3) len] Let_def)
  then show ?thesis
    by (simp only: pick)
qed

theorem chooseRandomServicePort_single_alternative_witness:
  "set (targetPorts (serviceWith [tPort1, tPort2])) = {tPort1, tPort2}
   \<and> tPort1 \<noteq> tPort2
   \<and> chooseRandomServicePort 49 (serviceWith [tPort1, tPort2]) (routeOn [] tPort1) =
       Inr (Some (routeOn [] tPort2), None)"
proof -
  have ports: "set (targetPorts (serviceWith [tPort1, tPort2])) = {tPort1, tPort2}"
    by (simp add: serviceWith_def targetPorts_def servicePort_def)
  have ne: "tPort1 \<noteq> tPort2"
    by (simp add: tPort1_def tPort2_def)
  have port: "Port (Route_Spec (routeOn [] tPort1)) = Some \<lparr>TargetPort = tPort1\<rparr>"
    by (simp add: routeOn_def)
  have "chooseRandomServicePort 49 (serviceWith [tPort1, tPort2]) (routeOn [] tPort1) =
       Inr (Some (routeOn [] tPort2), None)"
    using chooseRandomServicePort_single_alternative [OF ports ne port, of 49]
    by (simp add: routeOn_def)
  with ports ne show ?thesis
    by (simp only: simp_thms)
qed

lemma no_alternative_iff:
  "filter (\<lambda>t. t \<noteq> c) (targetPorts service) = [] \<longleftrightarrow>
     (\<forall>p \<in> set (Ports (Service_Spec service)). ServicePort_TargetPort p = c)"
  by (simp add: filter_empty_conv targetPorts_def)

text \<open>
  Claim C10. For a route with a current port, \<open>chooseRandomServicePort\<close> returns (a
  route or an error) exactly when the list has fewer than two elements or some port
  differs from the current one. When the list has at least two elements that all equal
  the current port, the filtered list is empty, \<open>rand.Intn\<close> is called with its length
  0 and panics, and so does the call.
\<close>

theorem chooseRandomServicePort_total_iff:
  assumes "Port (Route_Spec route) = Some cp"
  shows "((\<exists>res. chooseRandomServicePort seed service route = Inr res) \<longleftrightarrow>
            length (Ports (Service_Spec service)) < 2
            \<or> (\<exists>p \<in> set (Ports (Service_Spec service)). ServicePort_TargetPort p \<noteq> TargetPort cp))
         \<and> (2 \<le> length (Ports (Service_Spec service))
             \<and> (\<forall>p \<in> set (Ports (Service_Spec service)). ServicePort_TargetPort p = TargetPort cp)
            \<longrightarrow> filterPorts (Ports (Service_Spec service)) (Port (Route_Spec route)) [] = Inr []
                \<and> Intn seed (length ([] :: IntOrString list)) = Inl IntnInvalidArgument
                \<and> chooseRandomServicePort seed service route = Inl IntnInvalidArgument)"
proof (cases "2 \<le> length (Ports (Service_Spec service))")
  case False
  then consider "length (Ports (Service_Spec service)) = 0"
    | "length (Ports (Service_Spec service)) = 1"
    by linarith
  then have "\<exists>res. chooseRandomServicePort seed service route = Inr res"
    by cases (simp_all only: chooseRandomServicePort_short, blast+)
  with False show ?thesis
    by simp
next
  case True
  let ?av = "filter (\<lambda>t. t \<noteq> TargetPort cp) (targetPorts service)"
  show ?thesis
  proof (cases "?av = []")
    case same: True
    then have all: "\<forall>p \<in> set (Ports (Service_Spec service)). ServicePort_TargetPort p = TargetPort cp"
      by (simp only: no_alternative_iff)
    have "chooseRandomServicePort seed service route = Inl IntnInvalidArgument"
      using same by (simp add: chooseRandomServicePort_Some [OF assms True] Let_def)
    moreover have "filterPorts (Ports (Service_Spec service)) (Port (Route_Spec route)) [] = Inr []"
      using same by (simp add: assms filterPorts_Some targetPorts_def)
    moreover have "Intn seed (length ([] :: IntOrString list)) = Inl IntnInvalidArgument"
      by (simp add: Intn_def)
    ultimately show ?thesis
      using True all by simp
  next
    case other: False
    then have ex: "\<exists>p \<in> set (Ports (Service_Spec service)). ServicePort_TargetPort p \<noteq> TargetPort cp"
      by (simp only: no_alternative_iff) blast
    have "\<exists>res. chooseRandomServicePort seed service route = Inr res"
      using other by (simp add: chooseRandomServicePort_Some [OF assms True] Let_def)
    with ex show ?thesis
      by blast
  qed
qed

theorem chooseRandomServicePort_total_iff_witness:
  "Port (Route_Spec (routeOn [] tPort1)) = Some \<lparr>TargetPort = tPort1\<rparr>
   \<and> 2 \<le> length (Ports (Service_Spec (serviceWith [tPort1, tPort1])))
   \<and> filterPorts (Ports (Service_Spec (serviceWith [tPort1, tPort1])))
        (Port (Route_Spec (routeOn [] tPort1))) [] = Inr []
   \<and> chooseRandomServicePort 7 (serviceWith [tPort1, tPort1]) (routeOn [] tPort1) =
       Inl IntnInvalidArgument"
proof -
  have port: "Port (Route_Spec (routeOn [] tPort1)) = Some \<lparr>TargetPort = tPort1\<rparr>"
    by (simp add: routeOn_def)
  have len: "2 \<le> length (Ports (Service_Spec (serviceWith [tPort1, tPort1])))"
    by (simp add: serviceWith_def)
  have same: "\<forall>p \<in> set (Ports (Service_Spec (serviceWith [tPort1, tPort1]))).
      ServicePort_TargetPort p = TargetPort \<lparr>TargetPort = tPort1\<rparr>"
    by (simp add: serviceWith_def servicePort_def)
  from chooseRandomServicePort_total_iff [OF port, of 7 "serviceWith [tPort1, tPort1]"] len same
  show ?thesis
    using port by blast
qed

section \<open>Properties of the route update, the probe and the polling loop\<close>

text \<open>
  The models of \<open>strings.Contains\<close> and \<open>strconv.Itoa\<close> do what the library
  functions do: the first is the contiguous-sublist relation, the second prints decimals.
\<close>

lemma Contains_sublist: "Contains s substr \<longleftrightarrow> sublist substr s"
  by (induction s) (auto simp: sublist_Cons_right)

lemma Itoa_examples: "Itoa 8080 = ''8080''" "Itoa (- 17) = ''-17''" "Itoa 0 = ''0''"
  by (simp_all add: Itoa_def decimal.simps digit_def)

lemma IntOrString_String_examples:
  "IntOrString_String (intPort 8080) = ''8080''"
  "IntOrString_String (strPort ''8080-tcp'') = ''8080-tcp''"
  "IntOrString_String tPort1 = ''0''"
  by (simp_all add: IntOrString_String_def intPort_def strPort_def tPort1_def Itoa_def
      decimal.simps digit_def)

lemma canaryRouteChanged_eq:
  "canaryRouteChanged current expected =
     (if Route_Spec current \<noteq> Route_Spec expected
      then (True, Some (current\<lparr>Route_Spec := Route_Spec expected\<rparr>))
      else (False, None))"
  by (simp add: canaryRouteChanged_def)

text \<open>
  Claim C9. After \<open>updateCanaryRoute\<close> has applied a desired route (it reports an
  update), the object it wrote is the one \<open>canaryRouteChanged\<close> returned;
  \<open>canaryRouteChanged\<close> finds no change between that object and the desired route, in
  either order, and a second \<open>updateCanaryRoute\<close> reports no update and leaves the
  world as it is: no second write is issued.
\<close>

theorem updateCanaryRoute_second_noop:
  assumes "updateCanaryRoute e w current desired = ((True, None), w1)"
  shows "\<exists>updated. canaryRouteChanged current desired = (True, Some updated)
           \<and> updates w1 = updates w @ [updated]
           \<and> canaryRouteChanged updated desired = (False, None)
           \<and> canaryRouteChanged desired updated = (False, None)
           \<and> updateCanaryRoute e' w1 updated desired = ((False, None), w1)"
proof -
  let ?updated = "current\<lparr>Route_Spec := Route_Spec desired\<rparr>"
  from assms have changed: "Route_Spec current \<noteq> Route_Spec desired"
    by (auto simp: updateCanaryRoute_def canaryRouteChanged_eq split: if_splits)
  then have first: "canaryRouteChanged current desired = (True, Some ?updated)"
    by (simp add: canaryRouteChanged_eq)
  from assms have "updates w1 = updates w @ [?updated]"
    by (auto simp: updateCanaryRoute_def first log_Info_def Let_def split: option.splits)
  moreover have "canaryRouteChanged ?updated desired = (False, None)"
    and "canaryRouteChanged desired ?updated = (False, None)"
    by (simp_all add: canaryRouteChanged_eq)
  moreover from this have "updateCanaryRoute e' w1 ?updated desired = ((False, None), w1)"
    by (simp add: updateCanaryRoute_def)
  ultimately show ?thesis
    using first by blast
qed

theorem updateCanaryRoute_second_noop_witness:
  "updateCanaryRoute (envWith NotFound NotFound None (Inl (DNSError []))) world0
       (routeOn [] tPort1) (routeOn [] tPort2) =
     ((True, None),
      log_Info ''updated canary route'' [(''namespace'', []), (''name'', [])]
        (world0\<lparr>updates := [routeOn [] tPort2]\<rparr>))
   \<and> canaryRouteChanged (routeOn [] tPort2) (routeOn [] tPort2) = (False, None)
   \<and> updateCanaryRoute (envWith NotFound NotFound None (Inl (DNSError [])))
       (log_Info ''updated canary route'' [(''namespace'', []), (''name'', [])]
          (world0\<lparr>updates := [routeOn [] tPort2]\<rparr>))
       (routeOn [] tPort2) (routeOn [] tPort2) =
     ((False, None),
      log_Info ''updated canary route'' [(''namespace'', []), (''name'', [])]
        (world0\<lparr>updates := [routeOn [] tPort2]\<rparr>))"
proof -
  let ?e = "envWith NotFound NotFound None (Inl (DNSError []))"
  let ?w1 = "log_Info ''updated canary route'' [(''namespace'', []), (''name'', [])]
        (world0\<lparr>updates := [routeOn [] tPort2]\<rparr>)"
  have first: "updateCanaryRoute ?e world0 (routeOn [] tPort1) (routeOn [] tPort2) =
      ((True, None), ?w1)"
    by (simp add: updateCanaryRoute_def canaryRouteChanged_eq routeOn_def tPort1_def tPort2_def
        envWith_def world0_def)
  from updateCanaryRoute_second_noop [OF first, of ?e]
  obtain updated where
    u: "canaryRouteChanged (routeOn [] tPort1) (routeOn [] tPort2) = (True, Some updated)"
    and fixed: "canaryRouteChanged updated (routeOn [] tPort2) = (False, None)"
    and again: "updateCanaryRoute ?e ?w1 updated (routeOn [] tPort2) = ((False, None), ?w1)"
    by blast
  from u have "updated = routeOn [] tPort2"
    by (simp add: canaryRouteChanged_eq routeOn_def split: if_splits)
  with first fixed again show ?thesis
    by simp
qed

lemma testRouteEndpoint_no_host:
  "Host (Route_Spec route) = [] \<Longrightarrow>
     testRouteEndpoint e w route = Inr ((False, Some RouteHostIsNil), w)"
  by (simp add: testRouteEndpoint_def)

lemma testRouteEndpoint_no_request:
  assumes "Host (Route_Spec route) \<noteq> []" and "NewRequest e (probeURL route) = Some msg"
  shows "testRouteEndpoint e w route = Inr ((False, Some (ErrorCreatingRequest msg)), w)"
  using assms by (simp add: testRouteEndpoint_def createRequest_def probeURL_def Let_def)

lemma testRouteEndpoint_do_error:
  assumes "Host (Route_Spec route) \<noteq> []" and "NewRequest e (probeURL route) = None"
    and "Do e (probeURL route) = Inl err"
  shows "testRouteEndpoint e w route =
     Inr ((False, Some (case err of
                          DNSError msg \<Rightarrow> ErrorSendingRequestDNS msg
                        | TransportError msg \<Rightarrow> ErrorSendingRequest (Host (Route_Spec route)) msg)),
          sent w route)"
  using assms
  by (cases err) (simp_all add: testRouteEndpoint_def createRequest_def probeURL_def sent_def Let_def)

lemma testRouteEndpoint_read_error:
  assumes "Host (Route_Spec route) \<noteq> []" and "NewRequest e (probeURL route) = None"
    and "Do e (probeURL route) = Inr response" and "Body response = Inl msg"
  shows "testRouteEndpoint e w route = Inr ((False, Some (ErrorReadingBody msg)), sent w route)"
  using assms
  by (simp add: testRouteEndpoint_def createRequest_def probeURL_def sent_def Let_def)

lemma testRouteEndpoint_body:
  assumes "Host (Route_Spec route) \<noteq> []" and "NewRequest e (probeURL route) = None"
    and "Do e (probeURL route) = Inr response" and "Body response = Inr body"
  shows "testRouteEndpoint e w route =
     (if body = [] then Inr ((False, Some ExpectedBodyNotNil), sent w route)
      else if \<not> Contains body expectedBodyContents
      then Inr ((False, Some (ExpectedBodyToContain expectedBodyContents body)), sent w route)
      else if recPort response = [] then Inr ((False, Some ExpectedRequestPortHeader), sent w route)
      else
        (case Port (Route_Spec route) of
           None \<Rightarrow> Inl NilPointerDereference
         | Some port \<Rightarrow>
             if \<not> Contains (IntOrString_String (TargetPort port)) (recPort response)
             then Inr ((False, Some (ReceivedOnWrongPort (recPort response)
                                       (IntOrString_String (TargetPort port)))),
                       (sent w route)\<lparr>CanaryEndpointWrongPortEcho :=
                          CanaryEndpointWrongPortEcho w + 1\<rparr>)
             else if StatusCode response = 200
             then Inr ((True, None),
                       (sent w route)\<lparr>CanaryRequestTime :=
                          CanaryRequestTime w @ [(Host (Route_Spec route), totalTime e)]\<rparr>)
             else if StatusCode response = 408
             then Inr ((False, Some (StatusRequestTimedOut (StatusCode response))), sent w route)
             else if StatusCode response = 503
             then Inr ((False, Some (StatusRouteNotAvailable (StatusCode response))), sent w route)
             else Inr ((False, Some (UnexpectedStatusCode (StatusCode response))), sent w route)))"
  using assms
  by (simp add: testRouteEndpoint_def createRequest_def probeURL_def sent_def recPort_def Let_def
      split: option.splits)

lemma Contains_same: "Contains s s"
  by (cases s) simp_all

lemma testRouteEndpoint_status_last:
  assumes "testRouteEndpoint e w route = Inr ((ok, err), w')"
    and "ok \<or> (\<exists>x. err = Some x \<and> statusError x)"
  shows "Host (Route_Spec route) \<noteq> []
     \<and> NewRequest e (probeURL route) = None
     \<and> (\<exists>response body port.
           Do e (probeURL route) = Inr response \<and> Body response = Inr body
           \<and> body \<noteq> [] \<and> Contains body expectedBodyContents
           \<and> recPort response \<noteq> [] \<and> Port (Route_Spec route) = Some port
           \<and> Contains (IntOrString_String (TargetPort port)) (recPort response))"
proof -
  have host: "Host (Route_Spec route) \<noteq> []"
    using assms by (auto simp: testRouteEndpoint_no_host)
  have req: "NewRequest e (probeURL route) = None"
  proof (cases "NewRequest e (probeURL route)")
    case (Some msg)
    with assms host show ?thesis
      by (auto simp: testRouteEndpoint_no_request)
  qed simp
  obtain response where resp: "Do e (probeURL route) = Inr response"
  proof (cases "Do e (probeURL route)")
    case (Inl derr)
    with assms host req have False
      by (cases derr) (auto simp: testRouteEndpoint_do_error)
    then show ?thesis ..
  qed blast
  obtain body where body: "Body response = Inr body"
  proof (cases "Body response")
    case (Inl msg)
    with assms host req resp have False
      by (auto simp: testRouteEndpoint_read_error)
    then show ?thesis ..
  qed blast
  note stage = testRouteEndpoint_body [OF host req resp body, of w]
  have b1: "body \<noteq> []"
    using assms stage by auto
  have b2: "Contains body expectedBodyContents"
    using assms stage b1 by (auto split: if_splits)
  have h1: "recPort response \<noteq> []"
    using assms stage b1 b2 by (auto split: if_splits)
  obtain port where port: "Port (Route_Spec route) = Some port"
    using assms stage b1 b2 h1 by (cases "Port (Route_Spec route)") auto
  have h2: "Contains (IntOrString_String (TargetPort port)) (recPort response)"
    using assms stage b1 b2 h1 port by (auto split: if_splits)
  from host req resp body b1 b2 h1 port h2 show ?thesis
    by blast
qed

text \<open>
  The order of the checks of \<open>testRouteEndpoint\<close>, each result holding whatever the
  later checks would find: an empty host fails first and leaves the world untouched (no
  request is sent); once the request is sent, an error of \<open>client.Do\<close> (DNS or other)
  or of reading the body; then an empty body; then a body without the marker; then a
  \<open>request-port\<close> header whose value does not occur in the route's port string,
  whatever the status code. A result that comes from the status code (success or one of
  the three status errors) means all the earlier checks passed, and when they pass with
  the header equal to the port string, the status code alone decides the result.
\<close>

lemma testRouteEndpoint_precedence:
  "(Host (Route_Spec route) = [] \<longrightarrow>
      testRouteEndpoint e w route = Inr ((False, Some RouteHostIsNil), w))
   \<and> (Host (Route_Spec route) \<noteq> [] \<and> NewRequest e (probeURL route) = None \<longrightarrow>
        (Do e (probeURL route) = Inl (DNSError msg) \<longrightarrow>
           testRouteEndpoint e w route =
             Inr ((False, Some (ErrorSendingRequestDNS msg)), sent w route))
      \<and> (Do e (probeURL route) = Inl (TransportError msg) \<longrightarrow>
           testRouteEndpoint e w route =
             Inr ((False, Some (ErrorSendingRequest (Host (Route_Spec route)) msg)), sent w route))
      \<and> (Do e (probeURL route) = Inr response \<longrightarrow>
           (Body response = Inl msg \<longrightarrow>
              testRouteEndpoint e w route =
                Inr ((False, Some (ErrorReadingBody msg)), sent w route))
         \<and> (Body response = Inr body \<longrightarrow>
              (body = [] \<longrightarrow>
                 testRouteEndpoint e w route =
                   Inr ((False, Some ExpectedBodyNotNil), sent w route))
            \<and> (body \<noteq> [] \<and> \<not> Contains body expectedBodyContents \<longrightarrow>
                 testRouteEndpoint e w route =
                   Inr ((False, Some (ExpectedBodyToContain expectedBodyContents body)),
                        sent w route))
            \<and> (body \<noteq> [] \<and> Contains body expectedBodyContents \<and> recPort response \<noteq> []
                \<and> Port (Route_Spec route) = Some port
                \<and> \<not> Contains (IntOrString_String (TargetPort port)) (recPort response) \<longrightarrow>
                 testRouteEndpoint e w route =
                   Inr ((False, Some (ReceivedOnWrongPort (recPort response)
                                        (IntOrString_String (TargetPort port)))),
                        (sent w route)\<lparr>CanaryEndpointWrongPortEcho :=
                           CanaryEndpointWrongPortEcho w + 1\<rparr>)))))
   \<and> (testRouteEndpoint e w route = Inr ((ok, err), w')
       \<and> (ok \<or> (\<exists>x. err = Some x \<and> statusError x)) \<longrightarrow>
        Host (Route_Spec route) \<noteq> []
        \<and> (\<exists>response body port.
              Do e (probeURL route) = Inr response \<and> Body response = Inr body
              \<and> body \<noteq> [] \<and> Contains body expectedBodyContents
              \<and> recPort response \<noteq> [] \<and> Port (Route_Spec route) = Some port
              \<and> Contains (IntOrString_String (TargetPort port)) (recPort response)))
   \<and> (Host (Route_Spec route) \<noteq> [] \<and> NewRequest e (probeURL route) = None
       \<and> Do e (probeURL route) = Inr response \<and> Body response = Inr body
       \<and> body \<noteq> [] \<and> Contains body expectedBodyContents \<and> recPort response \<noteq> []
       \<and> Port (Route_Spec route) = Some port
       \<and> recPort response = IntOrString_String (TargetPort port) \<longrightarrow>
        testRouteEndpoint e w route =
          (if StatusCode response = 200
           then Inr ((True, None),
                     (sent w route)\<lparr>CanaryRequestTime :=
                        CanaryRequestTime w @ [(Host (Route_Spec route), totalTime e)]\<rparr>)
           else if StatusCode response = 408
           then Inr ((False, Some (StatusRequestTimedOut (StatusCode response))), sent w route)
           else if StatusCode response = 503
           then Inr ((False, Some (StatusRouteNotAvailable (StatusCode response))), sent w route)
           else Inr ((False, Some (UnexpectedStatusCode (StatusCode response))), sent w route)))"
proof (intro conjI impI)
  assume "Host (Route_Spec route) = []"
  then show "testRouteEndpoint e w route = Inr ((False, Some RouteHostIsNil), w)"
    by (rule testRouteEndpoint_no_host)
next
  assume "Host (Route_Spec route) \<noteq> [] \<and> NewRequest e (probeURL route) = None"
    and "Do e (probeURL route) = Inl (DNSError msg)"
  then show "testRouteEndpoint e w route =
      Inr ((False, Some (ErrorSendingRequestDNS msg)), sent w route)"
    by (simp add: testRouteEndpoint_do_error)
next
  assume "Host (Route_Spec route) \<noteq> [] \<and> NewRequest e (probeURL route) = None"
    and "Do e (probeURL route) = Inl (TransportError msg)"
  then show "testRouteEndpoint e w route =
      Inr ((False, Some (ErrorSendingRequest (Host (Route_Spec route)) msg)), sent w route)"
    by (simp add: testRouteEndpoint_do_error)
next
  assume "Host (Route_Spec route) \<noteq> [] \<and> NewRequest e (probeURL route) = None"
    and "Do e (probeURL route) = Inr response" and "Body response = Inl msg"
  then show "testRouteEndpoint e w route =
      Inr ((False, Some (ErrorReadingBody msg)), sent w route)"
    by (simp add: testRouteEndpoint_read_error)
next
  assume "Host (Route_Spec route) \<noteq> [] \<and> NewRequest e (probeURL route) = None"
    and "Do e (probeURL route) = Inr response" and "Body response = Inr body" and "body = []"
  then show "testRouteEndpoint e w route = Inr ((False, Some ExpectedBodyNotNil), sent w route)"
    by (simp add: testRouteEndpoint_body)
next
  assume "Host (Route_Spec route) \<noteq> [] \<and> NewRequest e (probeURL route) = None"
    and "Do e (probeURL route) = Inr response" and "Body response = Inr body"
    and "body \<noteq> [] \<and> \<not> Contains body expectedBodyContents"
  then show "testRouteEndpoint e w route =
      Inr ((False, Some (ExpectedBodyToContain expectedBodyContents body)), sent w route)"
    by (simp add: testRouteEndpoint_body)
next
  assume "Host (Route_Spec route) \<noteq> [] \<and> NewRequest e (probeURL route) = None"
    and "Do e (probeURL route) = Inr response" and "Body response = Inr body"
    and "body \<noteq> [] \<and> Contains body expectedBodyContents \<and> recPort response \<noteq> []
         \<and> Port (Route_Spec route) = Some port
         \<and> \<not> Contains (IntOrString_String (TargetPort port)) (recPort response)"
  then show "testRouteEndpoint e w route =
      Inr ((False, Some (ReceivedOnWrongPort (recPort response)
                           (IntOrString_String (TargetPort port)))),
           (sent w route)\<lparr>CanaryEndpointWrongPortEcho := CanaryEndpointWrongPortEcho w + 1\<rparr>)"
    by (simp add: testRouteEndpoint_body)
next
  assume a: "testRouteEndpoint e w route = Inr ((ok, err), w')
       \<and> (ok \<or> (\<exists>x. err = Some x \<and> statusError x))"
  then show "Host (Route_Spec route) \<noteq> []"
    using testRouteEndpoint_status_last [of e w route ok err w'] by blast
  from a show "\<exists>response body port.
              Do e (probeURL route) = Inr response \<and> Body response = Inr body
              \<and> body \<noteq> [] \<and> Contains body expectedBodyContents
              \<and> recPort response \<noteq> [] \<and> Port (Route_Spec route) = Some port
              \<and> Contains (IntOrString_String (TargetPort port)) (recPort response)"
    using testRouteEndpoint_status_last [of e w route ok err w'] by blast
next
  assume h: "Host (Route_Spec route) \<noteq> [] \<and> NewRequest e (probeURL route) = None
       \<and> Do e (probeURL route) = Inr response \<and> Body response = Inr body
       \<and> body \<noteq> [] \<and> Contains body expectedBodyContents \<and> recPort response \<noteq> []
       \<and> Port (Route_Spec route) = Some port
       \<and> recPort response = IntOrString_String (TargetPort port)"
  then have stage: "Host (Route_Spec route) \<noteq> []" "NewRequest e (probeURL route) = None"
      "Do e (probeURL route) = Inr response" "Body response = Inr body"
    by simp_all
  from h have checks: "body \<noteq> []" "Contains body expectedBodyContents"
      "recPort response \<noteq> []" "Port (Route_Spec route) = Some port"
    and same: "recPort response = IntOrString_String (TargetPort port)"
    by blast+
  have "Contains (IntOrString_String (TargetPort port)) (recPort response)"
    unfolding same by (rule Contains_same)
  with checks show "testRouteEndpoint e w route =
          (if StatusCode response = 200
           then Inr ((True, None),
                     (sent w route)\<lparr>CanaryRequestTime :=
                        CanaryRequestTime w @ [(Host (Route_Spec route), totalTime e)]\<rparr>)
           else if StatusCode response = 408
           then Inr ((False, Some (StatusRequestTimedOut (StatusCode response))), sent w route)
           else if StatusCode response = 503
           then Inr ((False, Some (StatusRouteNotAvailable (StatusCode response))), sent w route)
           else Inr ((False, Some (UnexpectedStatusCode (StatusCode response))), sent w route))"
    by (simp add: testRouteEndpoint_body [OF stage])
qed

lemma testRouteEndpoint_counter:
  assumes "testRouteEndpoint e w route = Inr ((ok, err), w')"
  shows "CanaryEndpointWrongPortEcho w' =
           CanaryEndpointWrongPortEcho w +
             (if \<exists>a b. err = Some (ReceivedOnWrongPort a b) then 1 else 0)
         \<and> ((\<exists>a b. err = Some (ReceivedOnWrongPort a b)) \<longrightarrow> \<not> ok)"
proof (cases "Host (Route_Spec route) = []")
  case True
  with assms show ?thesis
    by (auto simp: testRouteEndpoint_no_host)
next
  case host: False
  show ?thesis
  proof (cases "NewRequest e (probeURL route)")
    case (Some msg)
    with assms host show ?thesis
      by (auto simp: testRouteEndpoint_no_request)
  next
    case req: None
    show ?thesis
    proof (cases "Do e (probeURL route)")
      case (Inl derr)
      with assms host req show ?thesis
        by (cases derr) (auto simp: testRouteEndpoint_do_error sent_def)
    next
      case (Inr response)
      show ?thesis
      proof (cases "Body response")
        case (Inl msg)
        with assms host req Inr show ?thesis
          by (auto simp: testRouteEndpoint_read_error sent_def)
      next
        case body: (Inr body)
        from assms show ?thesis
          by (auto simp: testRouteEndpoint_body [OF host req Inr body] sent_def
              split: if_splits option.splits)
      qed
    qed
  qed
qed

text \<open>
  Claim C3, as the code has it. \<open>CanaryEndpointWrongPortEcho\<close> changes only in a probe
  that returns the wrong-port error, then by exactly one, and that probe is a failure.
  For a response that was read, whose body is not empty and contains the canary marker,
  and that carries a non-empty \<open>request-port\<close> header, on a route with a target port:
  when the header's value does not occur in the string of the route's target port, the
  probe returns the wrong-port error; when the header's value equals that string, the
  counter is left as it was.
\<close>

theorem testRouteEndpoint_wrong_port_echo:
  "(testRouteEndpoint e w route = Inr ((ok, err), w') \<longrightarrow>
      CanaryEndpointWrongPortEcho w' =
        CanaryEndpointWrongPortEcho w +
          (if \<exists>a b. err = Some (ReceivedOnWrongPort a b) then 1 else 0)
      \<and> ((\<exists>a b. err = Some (ReceivedOnWrongPort a b)) \<longrightarrow> \<not> ok))
   \<and> (Host (Route_Spec route) \<noteq> [] \<and> NewRequest e (probeURL route) = None
       \<and> Do e (probeURL route) = Inr response \<and> Body response = Inr body
       \<and> body \<noteq> [] \<and> Contains body expectedBodyContents
       \<and> recPort response \<noteq> [] \<and> Port (Route_Spec route) = Some port \<longrightarrow>
        (\<not> Contains (IntOrString_String (TargetPort port)) (recPort response) \<longrightarrow>
           testRouteEndpoint e w route =
             Inr ((False, Some (ReceivedOnWrongPort (recPort response)
                                  (IntOrString_String (TargetPort port)))),
                  (sent w route)\<lparr>CanaryEndpointWrongPortEcho :=
                     CanaryEndpointWrongPortEcho w + 1\<rparr>))
      \<and> (recPort response = IntOrString_String (TargetPort port) \<longrightarrow>
           (\<exists>res v. testRouteEndpoint e w route = Inr (res, v)
              \<and> CanaryEndpointWrongPortEcho v = CanaryEndpointWrongPortEcho w)))"
proof (intro conjI impI)
  assume a: "testRouteEndpoint e w route = Inr ((ok, err), w')"
  then show "CanaryEndpointWrongPortEcho w' =
        CanaryEndpointWrongPortEcho w +
          (if \<exists>a b. err = Some (ReceivedOnWrongPort a b) then 1 else 0)"
    using testRouteEndpoint_counter by blast
  show "\<not> ok" if "\<exists>a b. err = Some (ReceivedOnWrongPort a b)"
    using that a testRouteEndpoint_counter by blast
next
  assume h: "Host (Route_Spec route) \<noteq> [] \<and> NewRequest e (probeURL route) = None
       \<and> Do e (probeURL route) = Inr response \<and> Body response = Inr body
       \<and> body \<noteq> [] \<and> Contains body expectedBodyContents
       \<and> recPort response \<noteq> [] \<and> Port (Route_Spec route) = Some port"
  then have stage: "Host (Route_Spec route) \<noteq> []" "NewRequest e (probeURL route) = None"
      "Do e (probeURL route) = Inr response" "Body response = Inr body"
    by simp_all
  {
    assume "\<not> Contains (IntOrString_String (TargetPort port)) (recPort response)"
    with h show "testRouteEndpoint e w route =
             Inr ((False, Some (ReceivedOnWrongPort (recPort response)
                                  (IntOrString_String (TargetPort port)))),
                  (sent w route)\<lparr>CanaryEndpointWrongPortEcho :=
                     CanaryEndpointWrongPortEcho w + 1\<rparr>)"
      by (simp add: testRouteEndpoint_body [OF stage])
  }
  {
    assume "recPort response = IntOrString_String (TargetPort port)"
    with h show "\<exists>res v. testRouteEndpoint e w route = Inr (res, v)
              \<and> CanaryEndpointWrongPortEcho v = CanaryEndpointWrongPortEcho w"
      by (auto simp: testRouteEndpoint_body [OF stage] Contains_same sent_def)
  }
qed

lemma chooseRandomServicePort_nil_port:
  assumes "Port (Route_Spec route) = None"
    and "2 \<le> length (Ports (Service_Spec service))"
  shows "chooseRandomServicePort seed service route = Inl NilPointerDereference"
proof -
  from assms(2) have "Ports (Service_Spec service) \<noteq> []"
    and "length (Ports (Service_Spec service)) \<noteq> 1"
    by auto
  then show ?thesis
    using assms(1) by (simp add: chooseRandomServicePort_def Let_def filterPorts_None)
qed

lemma chooseRandomServicePort_changes_spec:
  assumes "chooseRandomServicePort seed service current = Inr (Some updated, None)"
  shows "Route_Spec updated \<noteq> Route_Spec current"
proof -
  have len: "2 \<le> length (Ports (Service_Spec service))"
  proof (rule ccontr)
    assume "\<not> 2 \<le> length (Ports (Service_Spec service))"
    then consider "length (Ports (Service_Spec service)) = 0"
      | "length (Ports (Service_Spec service)) = 1"
      by linarith
    then show False
      using assms by cases (simp_all add: chooseRandomServicePort_short)
  qed
  show ?thesis
  proof (cases "Port (Route_Spec current)")
    case None
    with assms len show ?thesis
      by (simp add: chooseRandomServicePort_nil_port)
  next
    case (Some cp)
    let ?av = "filter (\<lambda>t. t \<noteq> TargetPort cp) (targetPorts service)"
    from assms have ne: "?av \<noteq> []"
      by (auto simp: chooseRandomServicePort_Some [OF Some len] Let_def split: if_splits)
    then have "?av ! (seed mod length ?av) \<in> set ?av"
      by (intro nth_mem) simp
    then have new: "?av ! (seed mod length ?av) \<noteq> TargetPort cp"
      by simp
    from assms ne have "Port (Route_Spec updated) =
        Some \<lparr>TargetPort = ?av ! (seed mod length ?av)\<rparr>"
      by (auto simp: chooseRandomServicePort_Some [OF Some len] Let_def)
    with Some new show ?thesis
      by (cases cp) auto
  qed
qed

lemma rotateRouteEndpoint_error:
  assumes "chooseRandomServicePort (rnd e) service current = Inr (r, Some err)"
  shows "rotateRouteEndpoint e w service current =
     Inr ((None, Some (FailedToRotateRoutePort err)), w)"
  using assms by (simp add: rotateRouteEndpoint_def split: option.splits)

lemma rotateRouteEndpoint_chosen:
  assumes "chooseRandomServicePort (rnd e) service current = Inr (Some updated, None)"
  shows "rotateRouteEndpoint e w service current =
     (case updateErr e of
        Some msg \<Rightarrow>
          Inr ((Some current,
                Some (FailedToUpdateCanaryRoute (Route_Namespace current) (Route_Name current)
                        (ClientError msg))),
               w\<lparr>updates := updates w @ [current\<lparr>Route_Spec := Route_Spec updated\<rparr>]\<rparr>)
      | None \<Rightarrow>
          Inr ((Some updated, None),
               log_Info ''updated canary route''
                 [(''namespace'', Route_Namespace current), (''name'', Route_Name current)]
                 (w\<lparr>updates := updates w @ [current\<lparr>Route_Spec := Route_Spec updated\<rparr>]\<rparr>)))"
  using chooseRandomServicePort_changes_spec [OF assms] assms
  by (simp add: rotateRouteEndpoint_def updateCanaryRoute_def canaryRouteChanged_eq Let_def
      split: option.splits)

lemma rotateRouteEndpoint_quiet:
  assumes "rotateRouteEndpoint e w service current = Inr (res, w1)"
  shows "requests w1 = requests w \<and> reachable w1 = reachable w
     \<and> CanaryEndpointWrongPortEcho w1 = CanaryEndpointWrongPortEcho w
     \<and> CanaryRequestTime w1 = CanaryRequestTime w"
proof (cases "chooseRandomServicePort (rnd e) service current")
  case (Inl p)
  with assms show ?thesis
    by (simp add: rotateRouteEndpoint_def)
next
  case (Inr pair)
  obtain r err where pair: "pair = (r, err)"
    by (cases pair)
  show ?thesis
  proof (cases err)
    case (Some x)
    with assms Inr pair show ?thesis
      by (auto simp: rotateRouteEndpoint_error)
  next
    case None
    show ?thesis
    proof (cases r)
      case no: None
      with assms Inr pair None show ?thesis
        by (simp add: rotateRouteEndpoint_def)
    next
      case (Some updated)
      with assms Inr pair None show ?thesis
        by (auto simp: rotateRouteEndpoint_chosen log_Info_def split: option.splits)
    qed
  qed
qed

lemma tick_no_route:
  assumes "getRoute e = NotFound \<or> getRoute e = GetFailed msg"
  shows "tick e (count, w) =
     Inr (count, log_Error (case getRoute e of GetFailed m \<Rightarrow> Some (ClientError m) | _ \<Rightarrow> None)
                   ''failed to get canary route'' w)"
  using assms by (auto simp: tick_def currentCanaryRoute_def)

lemma tick_probe:
  assumes "getRoute e = Found route" and "count \<noteq> 6"
  shows "tick e (count, w) =
     (case testRouteEndpoint e w route of
        Inl p \<Rightarrow> Inl p
      | Inr ((success, err), w1) \<Rightarrow>
          if \<not> success
          then Inr (count, SetCanaryRouteUnreachable (Host (Route_Spec route))
                             (log_Error err ''canary route check:'' w1))
          else Inr (count + 1, SetCanaryRouteReachable (Host (Route_Spec route))
                                 (log_Info ''Successful canary check?'' [] w1)))"
  using assms by (simp add: tick_def currentCanaryRoute_def Let_def split: sum.splits prod.splits)

lemma tick_no_service:
  assumes "getRoute e = Found route"
    and "getService e = NotFound \<or> getService e = GetFailed msg"
  shows "tick e (6, w) =
     Inr (6, log_Error (case getService e of GetFailed m \<Rightarrow> Some (ClientError m) | _ \<Rightarrow> None)
               ''failed to get canary service'' w)"
  using assms by (auto simp: tick_def currentCanaryRoute_def currentCanaryService_def)

lemma tick_rotate:
  assumes "getRoute e = Found route" and "getService e = Found service"
  shows "tick e (6, w) =
     (case rotateRouteEndpoint e w service route of
        Inl p \<Rightarrow> Inl p
      | Inr ((route', err), w1) \<Rightarrow>
          if err \<noteq> None
          then Inr (6, log_Error err ''failed to rotate canary route endpoint'' w1)
          else
            (case route' of
               None \<Rightarrow> Inl NilPointerDereference
             | Some r \<Rightarrow>
                 (case Port (Route_Spec r) of
                    None \<Rightarrow> Inl NilPointerDereference
                  | Some port \<Rightarrow>
                      Inr (0, log_Info ''Rotate route endpoint, now on''
                                [(''port'', IntOrString_String (TargetPort port))] w1))))"
  using assms by (simp add: tick_def currentCanaryRoute_def currentCanaryService_def)

lemma chooseRandomServicePort_keeps_rest:
  assumes "chooseRandomServicePort seed service current = Inr (Some updated, None)"
  shows "current\<lparr>Route_Spec := Route_Spec updated\<rparr> = updated"
proof -
  have len: "2 \<le> length (Ports (Service_Spec service))"
  proof (rule ccontr)
    assume "\<not> 2 \<le> length (Ports (Service_Spec service))"
    then consider "length (Ports (Service_Spec service)) = 0"
      | "length (Ports (Service_Spec service)) = 1"
      by linarith
    then show False
      using assms by cases (simp_all add: chooseRandomServicePort_short)
  qed
  show ?thesis
  proof (cases "Port (Route_Spec current)")
    case None
    with assms len show ?thesis
      by (simp add: chooseRandomServicePort_nil_port)
  next
    case (Some cp)
    with assms show ?thesis
      by (auto simp: chooseRandomServicePort_Some [OF Some len] Let_def split: if_splits)
  qed
qed

lemma chooseRandomServicePort_sets_port:
  assumes "chooseRandomServicePort seed service current = Inr (Some updated, None)"
  shows "\<exists>port. Port (Route_Spec updated) = Some port"
proof -
  have len: "2 \<le> length (Ports (Service_Spec service))"
  proof (rule ccontr)
    assume "\<not> 2 \<le> length (Ports (Service_Spec service))"
    then consider "length (Ports (Service_Spec service)) = 0"
      | "length (Ports (Service_Spec service)) = 1"
      by linarith
    then show False
      using assms by cases (simp_all add: chooseRandomServicePort_short)
  qed
  show ?thesis
  proof (cases "Port (Route_Spec current)")
    case None
    with assms len show ?thesis
      by (simp add: chooseRandomServicePort_nil_port)
  next
    case (Some cp)
    with assms show ?thesis
      by (auto simp: chooseRandomServicePort_Some [OF Some len] Let_def split: if_splits)
  qed
qed

lemma tick_rotate_write_failed:
  assumes "getRoute e = Found route" and "getService e = Found service"
    and "chooseRandomServicePort (rnd e) service route = Inr (Some updated, None)"
    and "updateErr e = Some msg"
  shows "tick e (6, w) =
     Inr (6, log_Error (Some (FailedToUpdateCanaryRoute (Route_Namespace route) (Route_Name route)
                                (ClientError msg)))
               ''failed to rotate canary route endpoint''
               (w\<lparr>updates := updates w @ [updated]\<rparr>))"
  using assms(4) chooseRandomServicePort_keeps_rest [OF assms(3)]
  by (simp add: tick_rotate [OF assms(1,2)] rotateRouteEndpoint_chosen [OF assms(3)])

lemma tick_rotate_written:
  assumes "getRoute e = Found route" and "getService e = Found service"
    and "chooseRandomServicePort (rnd e) service route = Inr (Some updated, None)"
    and "updateErr e = None"
  shows "\<exists>port. Port (Route_Spec updated) = Some port \<and> tick e (6, w) =
     Inr (0, log_Info ''Rotate route endpoint, now on''
               [(''port'', IntOrString_String (TargetPort port))]
               (log_Info ''updated canary route''
                  [(''namespace'', Route_Namespace route), (''name'', Route_Name route)]
                  (w\<lparr>updates := updates w @ [updated]\<rparr>)))"
proof -
  from chooseRandomServicePort_sets_port [OF assms(3)]
  obtain port where "Port (Route_Spec updated) = Some port" ..
  then show ?thesis
    using assms(4) chooseRandomServicePort_keeps_rest [OF assms(3)]
    by (simp add: tick_rotate [OF assms(1,2)] rotateRouteEndpoint_chosen [OF assms(3)])
qed

text \<open>
  Claim C2, as the code has it. When a tick at the rotation boundary has fetched the route
  and the service and the rotation attempt fails, the failure is logged and the tick ends
  there: the counter stays at six, no request is sent to the route's endpoint in that
  tick, and no reachability signal or metric changes.
\<close>

theorem tick_rotation_failure_ends_tick:
  assumes "getRoute e = Found route"
    and "getService e = Found service"
    and "rotateRouteEndpoint e w service route = Inr ((r, Some err), w1)"
  shows "\<exists>w'. tick e (6, w) = Inr (6, w')
           \<and> logged w' = logged w1 @ [LogError (Some err) ''failed to rotate canary route endpoint'']
           \<and> requests w' = requests w
           \<and> reachable w' = reachable w
           \<and> CanaryRequestTime w' = CanaryRequestTime w
           \<and> CanaryEndpointWrongPortEcho w' = CanaryEndpointWrongPortEcho w"
  using rotateRouteEndpoint_quiet [OF assms(3)]
  by (simp add: tick_rotate [OF assms(1,2)] assms(3) log_Error_def)

lemma testRouteEndpoint_success_no_error:
  assumes "testRouteEndpoint e w route = Inr ((True, err), w1)"
  shows "err = None"
proof -
  from testRouteEndpoint_status_last [of e w route True err w1] assms
  obtain response body port where
    stage: "Host (Route_Spec route) \<noteq> []" "NewRequest e (probeURL route) = None"
      "Do e (probeURL route) = Inr response" "Body response = Inr body"
    and checks: "body \<noteq> []" "Contains body expectedBodyContents" "recPort response \<noteq> []"
      "Port (Route_Spec route) = Some port"
      "Contains (IntOrString_String (TargetPort port)) (recPort response)"
    by blast
  from assms checks show ?thesis
    by (simp add: testRouteEndpoint_body [OF stage] split: if_splits)
qed

lemma tick_boundary:
  assumes "getRoute e = Found route" and "tick e (6, w) = Inr (c', w')"
  shows "requests w' = requests w \<and> (c' = 0 \<or> c' = 6)"
proof (cases "getService e")
  case (Found service)
  show ?thesis
  proof (cases "rotateRouteEndpoint e w service route")
    case (Inl p)
    with assms show ?thesis
      by (simp add: tick_rotate [OF assms(1) Found])
  next
    case (Inr res)
    obtain r err w1 where res: "res = ((r, err), w1)"
      by (cases res) auto
    from rotateRouteEndpoint_quiet [OF Inr [unfolded res]]
    have quiet: "requests w1 = requests w" ..
    from assms(2) quiet show ?thesis
      by (auto simp: tick_rotate [OF assms(1) Found] Inr res log_Error_def log_Info_def
          split: if_splits option.splits)
  qed
next
  case NotFound
  with assms show ?thesis
    using tick_no_service [OF assms(1), of _ w] by (auto simp: log_Error_def)
next
  case (GetFailed msg)
  with assms show ?thesis
    using tick_no_service [OF assms(1), of msg w] by (auto simp: log_Error_def)
qed

lemma tick_increment_only_on_success:
  assumes "tick e (c, w) = Inr (c', w')" and "c' = c + 1"
  shows "c \<noteq> 6 \<and> (\<exists>route w1. getRoute e = Found route
           \<and> testRouteEndpoint e w route = Inr ((True, None), w1))"
proof (cases "getRoute e")
  case NotFound
  with assms show ?thesis
    using tick_no_route [of e _ c w] by simp
next
  case (GetFailed msg)
  with assms show ?thesis
    using tick_no_route [of e msg c w] by simp
next
  case (Found route)
  have c: "c \<noteq> 6"
  proof
    assume "c = 6"
    with assms tick_boundary [OF Found, of w c' w'] show False
      by auto
  qed
  show ?thesis
  proof (cases "testRouteEndpoint e w route")
    case (Inl p)
    with assms show ?thesis
      by (simp add: tick_probe [OF Found c])
  next
    case (Inr res)
    obtain success err w1 where res: "res = ((success, err), w1)"
      by (cases res) auto
    from assms have success
      by (auto simp: tick_probe [OF Found c] Inr res split: if_splits)
    with Inr res testRouteEndpoint_success_no_error [of e w route err w1]
    have "testRouteEndpoint e w route = Inr ((True, None), w1)"
      by simp
    with c Found show ?thesis
      by blast
  qed
qed

lemma run_append:
  "run (es @ fs) s = (case run es s of Inl p \<Rightarrow> Inl p | Inr s' \<Rightarrow> run fs s')"
  by (induction es arbitrary: s) (simp_all split: sum.splits)

lemma run_successes:
  assumes "\<forall>x \<in> set es. \<exists>rt. getRoute x = Found rt
             \<and> (\<forall>v. \<exists>v1. testRouteEndpoint x v rt = Inr ((True, None), v1))"
    and "c + int (length es) \<le> 6"
  shows "\<exists>w'. run es (c, w) = Inr (c + int (length es), w')"
  using assms
proof (induction es arbitrary: c w)
  case Nil
  then show ?case by simp
next
  case (Cons x es)
  from Cons.prems(1) obtain rt where rt: "getRoute x = Found rt"
    and ok: "\<forall>v. \<exists>v1. testRouteEndpoint x v rt = Inr ((True, None), v1)"
    by auto
  from ok obtain v1 where probe: "testRouteEndpoint x w rt = Inr ((True, None), v1)"
    by blast
  from Cons.prems(2) have c: "c \<noteq> 6"
    by simp
  let ?w1 = "SetCanaryRouteReachable (Host (Route_Spec rt))
               (log_Info ''Successful canary check?'' [] v1)"
  have step: "tick x (c, w) = Inr (c + 1, ?w1)"
    by (simp add: tick_probe [OF rt c] probe)
  from Cons.prems have "\<forall>x \<in> set es. \<exists>rt. getRoute x = Found rt
             \<and> (\<forall>v. \<exists>v1. testRouteEndpoint x v rt = Inr ((True, None), v1))"
    and "(c + 1) + int (length es) \<le> 6"
    by simp_all
  from Cons.IH [OF this, of ?w1]
  obtain w' where "run es (c + 1, ?w1) = Inr (c + 1 + int (length es), w')" ..
  with step show ?case
    by (simp add: add.assoc)
qed

lemma tick_reset_only_after_rotation:
  assumes "getRoute e = Found route" and "tick e (6, w) = Inr (0, w')"
  shows "\<exists>service updated. getService e = Found service
           \<and> chooseRandomServicePort (rnd e) service route = Inr (Some updated, None)
           \<and> updateErr e = None"
proof (cases "getService e")
  case NotFound
  with assms show ?thesis
    using tick_no_service [OF assms(1), of _ w] by simp
next
  case (GetFailed msg)
  with assms show ?thesis
    using tick_no_service [OF assms(1), of msg w] by simp
next
  case (Found service)
  note branch = tick_rotate [OF assms(1) Found, of w]
  show ?thesis
  proof (cases "chooseRandomServicePort (rnd e) service route")
    case (Inl p)
    with assms(2) show ?thesis
      by (simp add: branch rotateRouteEndpoint_def)
  next
    case (Inr res)
    obtain r err where res: "res = (r, err)"
      by (cases res)
    show ?thesis
    proof (cases err)
      case (Some x)
      with assms(2) Inr res show ?thesis
        by (simp add: branch rotateRouteEndpoint_error)
    next
      case None
      show ?thesis
      proof (cases r)
        case no: None
        with assms(2) Inr res None show ?thesis
          by (simp add: branch rotateRouteEndpoint_def)
      next
        case (Some updated)
        with Inr res None
        have chosen: "chooseRandomServicePort (rnd e) service route = Inr (Some updated, None)"
          by simp
        have "updateErr e = None"
        proof (cases "updateErr e")
          case (Some msg)
          from tick_rotate_write_failed [OF assms(1) Found chosen Some, of w] assms(2)
          show ?thesis
            by simp
        qed simp
        with Found chosen show ?thesis
          by blast
      qed
    qed
  qed
qed

lemma tick_rotate_again:
  assumes "getRoute e = Found route" and "getService e = Found service"
    and "chooseRandomServicePort (rnd e) service route = Inr (Some updated, None)"
  shows "\<exists>c' w'. tick e (6, w) = Inr (c', w') \<and> updates w' = updates w @ [updated]
           \<and> (c' = 0 \<longleftrightarrow> updateErr e = None) \<and> (c' = 6 \<longleftrightarrow> updateErr e \<noteq> None)"
proof (cases "updateErr e")
  case None
  from tick_rotate_written [OF assms None, of w] show ?thesis
    using None by (auto simp: log_Info_def)
next
  case (Some msg)
  from tick_rotate_write_failed [OF assms Some, of w] show ?thesis
    using Some by (auto simp: log_Error_def)
qed

lemma chooseRandomServicePort_never_nothing:
  "chooseRandomServicePort seed service route \<noteq> Inr (None, None)"
proof -
  consider "length (Ports (Service_Spec service)) = 0"
    | "length (Ports (Service_Spec service)) = 1"
    | "2 \<le> length (Ports (Service_Spec service))"
    by linarith
  then show ?thesis
  proof cases
    case 1
    then show ?thesis
      by (simp add: chooseRandomServicePort_short(1))
  next
    case 2
    then show ?thesis
      by (simp add: chooseRandomServicePort_short(2))
  next
    case 3
    show ?thesis
    proof (cases "Port (Route_Spec route)")
      case None
      then show ?thesis
        using 3 by (simp add: chooseRandomServicePort_nil_port)
    next
      case (Some cp)
      show ?thesis
        by (simp add: chooseRandomServicePort_Some [OF Some 3] Let_def)
    qed
  qed
qed

lemma tick_boundary_panic:
  assumes "getRoute e = Found route" and "tick e (6, w) = Inl p"
  shows "\<exists>sv. getService e = Found sv \<and> chooseRandomServicePort (rnd e) sv route = Inl p"
proof (cases "getService e")
  case NotFound
  with assms show ?thesis
    using tick_no_service [OF assms(1), of _ w] by simp
next
  case (GetFailed msg)
  with assms show ?thesis
    using tick_no_service [OF assms(1), of msg w] by simp
next
  case (Found service)
  note branch = tick_rotate [OF assms(1) Found, of w]
  show ?thesis
  proof (cases "chooseRandomServicePort (rnd e) service route")
    case (Inl q)
    with assms(2) have "q = p"
      by (simp add: branch rotateRouteEndpoint_def)
    with Inl Found show ?thesis
      by simp
  next
    case (Inr res)
    obtain r err where res: "res = (r, err)"
      by (cases res)
    show ?thesis
    proof (cases err)
      case (Some x)
      with assms(2) Inr res show ?thesis
        by (simp add: branch rotateRouteEndpoint_error)
    next
      case None
      show ?thesis
      proof (cases r)
        case no: None
        with Inr res None show ?thesis
          using chooseRandomServicePort_never_nothing [of "rnd e" service route] by simp
      next
        case (Some updated)
        with Inr res None
        have chosen: "chooseRandomServicePort (rnd e) service route = Inr (Some updated, None)"
          by simp
        from tick_rotate_again [OF assms(1) Found chosen, of w] assms(2) show ?thesis
          by auto
      qed
    qed
  qed
qed

text \<open>
  Claim C4, as the code has it. The counter goes up by one only in a tick away from the
  boundary whose probe returned success, and a tick whose probe failed leaves it as it
  was. A tick at six that has fetched the route sends no probe: if it returns, no request
  was sent and the counter is at six or at zero, and if it does not return, it is because
  the service was fetched and \<open>chooseRandomServicePort\<close>, which sends nothing,
  panicked. The counter is at zero only when the service was fetched, a new port was
  chosen and the update was written, and in that case the counter is reset to zero and
  the update carries the new route. Six ticks with successful probes take the loop from
  zero to six, and a seventh tick whose rotation succeeds rotates without probing and
  ends at zero.
\<close>

theorem polling_rotation_counter:
  "(tick e (c, w) = Inr (c', w') \<and> c' = c + 1 \<longrightarrow>
      c \<noteq> 6 \<and> (\<exists>route w1. getRoute e = Found route
                 \<and> testRouteEndpoint e w route = Inr ((True, None), w1)))
   \<and> (getRoute e = Found route \<and> c \<noteq> 6
       \<and> testRouteEndpoint e w route = Inr ((False, err), w1) \<longrightarrow>
        (\<exists>w'. tick e (c, w) = Inr (c, w')))
   \<and> (getRoute e = Found route \<and> tick e (6, w) = Inr (c', w') \<longrightarrow>
        requests w' = requests w \<and> (c' = 0 \<or> c' = 6))
   \<and> (getRoute e = Found route \<and> tick e (6, w) = Inl p \<longrightarrow>
        (\<exists>sv. getService e = Found sv
           \<and> chooseRandomServicePort (rnd e) sv route = Inl p))
   \<and> (getRoute e = Found route \<and> tick e (6, w) = Inr (0, w') \<longrightarrow>
        (\<exists>sv r. getService e = Found sv
           \<and> chooseRandomServicePort (rnd e) sv route = Inr (Some r, None)
           \<and> updateErr e = None))
   \<and> (getRoute e = Found route \<and> getService e = Found service
       \<and> chooseRandomServicePort (rnd e) service route = Inr (Some updated, None)
       \<and> updateErr e = None \<longrightarrow>
        (\<exists>w'. tick e (6, w) = Inr (0, w') \<and> requests w' = requests w
               \<and> updates w' = updates w @ [updated]))
   \<and> (length es = 6
       \<and> (\<forall>x \<in> set es. \<exists>rt. getRoute x = Found rt
             \<and> (\<forall>v. \<exists>v1. testRouteEndpoint x v rt = Inr ((True, None), v1))) \<longrightarrow>
        (\<exists>w6. startCanaryRoutePolling es w = Inr (6, w6)
           \<and> (getRoute e = Found route \<and> getService e = Found service
               \<and> chooseRandomServicePort (rnd e) service route = Inr (Some updated, None)
               \<and> updateErr e = None \<longrightarrow>
                (\<exists>w7. startCanaryRoutePolling (es @ [e]) w = Inr (0, w7)
                   \<and> requests w7 = requests w6 \<and> updates w7 = updates w6 @ [updated]))))"
proof (intro conjI impI)
  assume "tick e (c, w) = Inr (c', w') \<and> c' = c + 1"
  then show "c \<noteq> 6"
    and "\<exists>route w1. getRoute e = Found route
           \<and> testRouteEndpoint e w route = Inr ((True, None), w1)"
    using tick_increment_only_on_success [of e c w c' w'] by blast+
next
  assume "getRoute e = Found route \<and> c \<noteq> 6
       \<and> testRouteEndpoint e w route = Inr ((False, err), w1)"
  then show "\<exists>w'. tick e (c, w) = Inr (c, w')"
    by (simp add: tick_probe)
next
  assume a: "getRoute e = Found route \<and> tick e (6, w) = Inr (c', w')"
  then show "requests w' = requests w" and "c' = 0 \<or> c' = 6"
    using tick_boundary [of e route w c' w'] by blast+
next
  assume "getRoute e = Found route \<and> tick e (6, w) = Inl p"
  then show "\<exists>sv. getService e = Found sv
           \<and> chooseRandomServicePort (rnd e) sv route = Inl p"
    using tick_boundary_panic [of e route w p] by blast
next
  assume "getRoute e = Found route \<and> tick e (6, w) = Inr (0, w')"
  then show "\<exists>sv r. getService e = Found sv
           \<and> chooseRandomServicePort (rnd e) sv route = Inr (Some r, None)
           \<and> updateErr e = None"
    using tick_reset_only_after_rotation [of e route w w'] by blast
next
  assume a: "getRoute e = Found route \<and> getService e = Found service
       \<and> chooseRandomServicePort (rnd e) service route = Inr (Some updated, None)
       \<and> updateErr e = None"
  then have a1: "getRoute e = Found route" and a2: "getService e = Found service"
    and a3: "chooseRandomServicePort (rnd e) service route = Inr (Some updated, None)"
    and a4: "updateErr e = None"
    by blast+
  from tick_rotate_written [OF a1 a2 a3 a4, of w] show "\<exists>w'. tick e (6, w) = Inr (0, w') \<and> requests w' = requests w
               \<and> updates w' = updates w @ [updated]"
    by (auto simp: log_Info_def)
next
  assume a: "length es = 6
       \<and> (\<forall>x \<in> set es. \<exists>rt. getRoute x = Found rt
             \<and> (\<forall>v. \<exists>v1. testRouteEndpoint x v rt = Inr ((True, None), v1)))"
  then have "\<exists>w6. run es (0, w) = Inr (0 + int (length es), w6)"
    by (intro run_successes) simp_all
  with a obtain w6 where six: "run es (0, w) = Inr (6, w6)"
    by auto
  have "getRoute e = Found route \<and> getService e = Found service
               \<and> chooseRandomServicePort (rnd e) service route = Inr (Some updated, None)
               \<and> updateErr e = None \<longrightarrow>
                (\<exists>w7. startCanaryRoutePolling (es @ [e]) w = Inr (0, w7)
                   \<and> requests w7 = requests w6 \<and> updates w7 = updates w6 @ [updated])"
  proof
    assume b: "getRoute e = Found route \<and> getService e = Found service
               \<and> chooseRandomServicePort (rnd e) service route = Inr (Some updated, None)
               \<and> updateErr e = None"
    then have b1: "getRoute e = Found route" and b2: "getService e = Found service"
      and b3: "chooseRandomServicePort (rnd e) service route = Inr (Some updated, None)"
      and b4: "updateErr e = None"
      by blast+
    from tick_rotate_written [OF b1 b2 b3 b4, of w6] show "\<exists>w7. startCanaryRoutePolling (es @ [e]) w = Inr (0, w7)
                   \<and> requests w7 = requests w6 \<and> updates w7 = updates w6 @ [updated]"
      by (auto simp: startCanaryRoutePolling_def run_append six log_Info_def)
  qed
  with six show "\<exists>w6. startCanaryRoutePolling es w = Inr (6, w6)
           \<and> (getRoute e = Found route \<and> getService e = Found service
               \<and> chooseRandomServicePort (rnd e) service route = Inr (Some updated, None)
               \<and> updateErr e = None \<longrightarrow>
                (\<exists>w7. startCanaryRoutePolling (es @ [e]) w = Inr (0, w7)
                   \<and> requests w7 = requests w6 \<and> updates w7 = updates w6 @ [updated]))"
    by (auto simp: startCanaryRoutePolling_def)
qed

lemma tick_boundary_any:
  assumes "tick e (6, w) = Inr (c', w')"
  shows "requests w' = requests w \<and> (c' = 0 \<or> c' = 6)"
proof (cases "getRoute e")
  case (Found route)
  then show ?thesis
    using assms by (rule tick_boundary)
next
  case NotFound
  with assms show ?thesis
    using tick_no_route [of e _ 6 w] by (auto simp: log_Error_def)
next
  case (GetFailed msg)
  with assms show ?thesis
    using tick_no_route [of e msg 6 w] by (auto simp: log_Error_def)
qed

lemma tick_boundary_unfetched:
  assumes "(\<forall>rt. getRoute e \<noteq> Found rt) \<or> (\<forall>sv. getService e \<noteq> Found sv)"
  shows "\<exists>w'. tick e (6, w) = Inr (6, w') \<and> updates w' = updates w"
proof (cases "getRoute e")
  case NotFound
  then show ?thesis
    using tick_no_route [of e _ 6 w] by (simp add: log_Error_def)
next
  case (GetFailed msg)
  then show ?thesis
    using tick_no_route [of e msg 6 w] by (simp add: log_Error_def)
next
  case (Found route)
  with assms have none: "\<forall>sv. getService e \<noteq> Found sv"
    by simp
  show ?thesis
  proof (cases "getService e")
    case NotFound
    then show ?thesis
      using tick_no_service [OF Found, of _ w] by (simp add: log_Error_def)
  next
    case (GetFailed msg)
    then show ?thesis
      using tick_no_service [OF Found, of msg w] by (simp add: log_Error_def)
  next
    case (Found service)
    with none show ?thesis
      by simp
  qed
qed

text \<open>
  Claim C8. When the tick at the rotation boundary has chosen a new port and the write
  of the route fails, the error is logged, the update was issued once, and the counter
  stays at six. So the next tick is at the boundary again: whatever it reads, it sends no
  probe and ends at six or zero; if it cannot fetch the route or the service the counter
  stays at six; and if it fetches both and a port is chosen, the update is issued again,
  the counter going to zero exactly when this write succeeds.
\<close>

theorem tick_rotation_write_failure_retried:
  assumes "getRoute e = Found route"
    and "getService e = Found service"
    and "chooseRandomServicePort (rnd e) service route = Inr (Some updated, None)"
    and "updateErr e = Some msg"
  shows "\<exists>w1.
           tick e (6, w) = Inr (6, w1)
           \<and> logged w1 = logged w @
                [LogError (Some (FailedToUpdateCanaryRoute (Route_Namespace route)
                                   (Route_Name route) (ClientError msg)))
                   ''failed to rotate canary route endpoint'']
           \<and> updates w1 = updates w @ [updated]
           \<and> requests w1 = requests w
           \<and> (\<forall>e' c2 w2. tick e' (6, w1) = Inr (c2, w2) \<longrightarrow>
                 requests w2 = requests w1 \<and> (c2 = 0 \<or> c2 = 6))
           \<and> (\<forall>e' route' service' updated'.
                 getRoute e' = Found route' \<and> getService e' = Found service'
                 \<and> chooseRandomServicePort (rnd e') service' route' = Inr (Some updated', None) \<longrightarrow>
                 (\<exists>c2 w2. run [e, e'] (6, w) = Inr (c2, w2)
                    \<and> updates w2 = updates w1 @ [updated']
                    \<and> (c2 = 0 \<longleftrightarrow> updateErr e' = None)
                    \<and> (c2 = 6 \<longleftrightarrow> updateErr e' \<noteq> None)))
           \<and> (\<forall>e'. (\<forall>rt. getRoute e' \<noteq> Found rt) \<or> (\<forall>sv. getService e' \<noteq> Found sv) \<longrightarrow>
                 (\<exists>w2. run [e, e'] (6, w) = Inr (6, w2) \<and> updates w2 = updates w1))"
proof -
  let ?w1 = "log_Error (Some (FailedToUpdateCanaryRoute (Route_Namespace route) (Route_Name route)
                                (ClientError msg)))
               ''failed to rotate canary route endpoint''
               (w\<lparr>updates := updates w @ [updated]\<rparr>)"
  have first: "tick e (6, w) = Inr (6, ?w1)"
    using assms by (rule tick_rotate_write_failed)
  have both: "run [e, e'] (6, w) = tick e' (6, ?w1)" for e'
    by (simp add: first split: sum.splits)
  have l1: "logged ?w1 = logged w @
                [LogError (Some (FailedToUpdateCanaryRoute (Route_Namespace route)
                                   (Route_Name route) (ClientError msg)))
                   ''failed to rotate canary route endpoint'']"
    and u1: "updates ?w1 = updates w @ [updated]" and r1: "requests ?w1 = requests w"
    by (simp_all add: log_Error_def)
  have quiet: "\<forall>e' c2 w2. tick e' (6, ?w1) = Inr (c2, w2) \<longrightarrow>
                 requests w2 = requests ?w1 \<and> (c2 = 0 \<or> c2 = 6)"
    using tick_boundary_any by blast
  have again: "\<forall>e' route' service' updated'.
                 getRoute e' = Found route' \<and> getService e' = Found service'
                 \<and> chooseRandomServicePort (rnd e') service' route' = Inr (Some updated', None) \<longrightarrow>
                 (\<exists>c2 w2. run [e, e'] (6, w) = Inr (c2, w2)
                    \<and> updates w2 = updates ?w1 @ [updated']
                    \<and> (c2 = 0 \<longleftrightarrow> updateErr e' = None)
                    \<and> (c2 = 6 \<longleftrightarrow> updateErr e' \<noteq> None))"
    unfolding both using tick_rotate_again by blast
  have later: "\<forall>e'. (\<forall>rt. getRoute e' \<noteq> Found rt) \<or> (\<forall>sv. getService e' \<noteq> Found sv) \<longrightarrow>
                 (\<exists>w2. run [e, e'] (6, w) = Inr (6, w2) \<and> updates w2 = updates ?w1)"
    unfolding both using tick_boundary_unfetched by blast
  from first l1 u1 r1 quiet again later show ?thesis
    by (intro exI conjI)
qed

lemmas sample_defs = canaryRoute_def probeEnv_def rotateEnv_def envWith_def echo_def routeOn_def
  strPort_def serviceWith_def servicePort_def world0_def

lemma probe_facts:
  "Host (Route_Spec canaryRoute) \<noteq> []"
  "NewRequest (probeEnv d) url = None"
  "Do (probeEnv d) url = d"
  "Port (Route_Spec canaryRoute) = Some \<lparr>TargetPort = strPort ''8080''\<rparr>"
  "IntOrString_String (strPort s) = s"
  "recPort \<lparr>StatusCode = status, Header = [''Request-Port'' \<mapsto> [p]], Body = b\<rparr> = p"
  by (simp_all add: sample_defs IntOrString_String_def recPort_def Header_Get_def)

lemma marker_present: "Contains ''Hello OpenShift!'' expectedBodyContents"
  by (simp add: expectedBodyContents_def)

theorem testRouteEndpoint_wrong_port_echo_witness:
  "testRouteEndpoint (probeEnv (echo 200 ''Hello OpenShift!'' ''8888'')) world0 canaryRoute =
     Inr ((False, Some (ReceivedOnWrongPort ''8888'' ''8080'')),
          (sent world0 canaryRoute)\<lparr>CanaryEndpointWrongPortEcho := 1\<rparr>)
   \<and> (\<exists>res v. testRouteEndpoint (probeEnv (echo 200 ''Hello OpenShift!'' ''8080'')) world0
                  canaryRoute = Inr (res, v)
         \<and> CanaryEndpointWrongPortEcho v = 0)"
proof -
  let ?port = "\<lparr>TargetPort = strPort ''8080''\<rparr>"
  let ?other = "\<lparr>StatusCode = 200, Header = [''Request-Port'' \<mapsto> [''8888'']],
      Body = Inr ''Hello OpenShift!''\<rparr>"
  let ?same = "\<lparr>StatusCode = 200, Header = [''Request-Port'' \<mapsto> [''8080'']],
      Body = Inr ''Hello OpenShift!''\<rparr>"
  have reached1: "Host (Route_Spec canaryRoute) \<noteq> []
      \<and> NewRequest (probeEnv (echo 200 ''Hello OpenShift!'' ''8888'')) (probeURL canaryRoute) = None
      \<and> Do (probeEnv (echo 200 ''Hello OpenShift!'' ''8888'')) (probeURL canaryRoute) = Inr ?other
      \<and> Body ?other = Inr ''Hello OpenShift!''
      \<and> ''Hello OpenShift!'' \<noteq> [] \<and> Contains ''Hello OpenShift!'' expectedBodyContents
      \<and> recPort ?other \<noteq> [] \<and> Port (Route_Spec canaryRoute) = Some ?port"
    using marker_present by (simp add: probe_facts echo_def)
  have reached2: "Host (Route_Spec canaryRoute) \<noteq> []
      \<and> NewRequest (probeEnv (echo 200 ''Hello OpenShift!'' ''8080'')) (probeURL canaryRoute) = None
      \<and> Do (probeEnv (echo 200 ''Hello OpenShift!'' ''8080'')) (probeURL canaryRoute) = Inr ?same
      \<and> Body ?same = Inr ''Hello OpenShift!''
      \<and> ''Hello OpenShift!'' \<noteq> [] \<and> Contains ''Hello OpenShift!'' expectedBodyContents
      \<and> recPort ?same \<noteq> [] \<and> Port (Route_Spec canaryRoute) = Some ?port"
    using marker_present by (simp add: probe_facts echo_def)
  have differs: "\<not> Contains (IntOrString_String (TargetPort ?port)) (recPort ?other)"
    and agrees: "recPort ?same = IntOrString_String (TargetPort ?port)"
    by (simp_all add: probe_facts)
  note wrong = testRouteEndpoint_wrong_port_echo
    [where route = canaryRoute and w = world0 and response = ?other
       and body = "''Hello OpenShift!''" and port = ?port
       and e = "probeEnv (echo 200 ''Hello OpenShift!'' ''8888'')",
     THEN conjunct2, THEN mp, OF reached1, THEN conjunct1, THEN mp, OF differs]
  note right = testRouteEndpoint_wrong_port_echo
    [where route = canaryRoute and w = world0 and response = ?same
       and body = "''Hello OpenShift!''" and port = ?port
       and e = "probeEnv (echo 200 ''Hello OpenShift!'' ''8080'')",
     THEN conjunct2, THEN mp, OF reached2, THEN conjunct2, THEN mp, OF agrees]
  from wrong have "testRouteEndpoint (probeEnv (echo 200 ''Hello OpenShift!'' ''8888'')) world0
      canaryRoute =
     Inr ((False, Some (ReceivedOnWrongPort ''8888'' ''8080'')),
          (sent world0 canaryRoute)\<lparr>CanaryEndpointWrongPortEcho := 1\<rparr>)"
    by (simp add: probe_facts world0_def)
  moreover from right have "\<exists>res v.
      testRouteEndpoint (probeEnv (echo 200 ''Hello OpenShift!'' ''8080'')) world0 canaryRoute =
        Inr (res, v)
      \<and> CanaryEndpointWrongPortEcho v = 0"
    by (simp add: world0_def)
  ultimately show ?thesis ..
qed

text \<open>
  Claim C3 as stated fails on two probes of the route on port 8080. A response with an empty body and the header
  value 9999 fails on the body, and the wrong-port counter stays at zero. A response with
  the marker, status 200 and the header value 80 is a success: 80 occurs in 8080.
\<close>

theorem wrong_port_echo_counterexample:
  "testRouteEndpoint (probeEnv (echo 200 [] ''9999'')) world0 canaryRoute =
     Inr ((False, Some ExpectedBodyNotNil), sent world0 canaryRoute)
   \<and> CanaryEndpointWrongPortEcho (sent world0 canaryRoute) = 0
   \<and> testRouteEndpoint (probeEnv (echo 200 ''Hello OpenShift!'' ''80'')) world0 canaryRoute =
     Inr ((True, None),
          (sent world0 canaryRoute)\<lparr>CanaryRequestTime := [(''canary.example'', 12)]\<rparr>)
   \<and> CanaryEndpointWrongPortEcho
        ((sent world0 canaryRoute)\<lparr>CanaryRequestTime := [(''canary.example'', 12)]\<rparr>) = 0"
proof -
  let ?port = "\<lparr>TargetPort = strPort ''8080''\<rparr>"
  have host: "Host (Route_Spec canaryRoute) \<noteq> []"
    and req: "NewRequest (probeEnv d) (probeURL canaryRoute) = None" for d
    by (simp_all add: probe_facts)
  have do1: "Do (probeEnv (echo 200 [] ''9999'')) (probeURL canaryRoute) =
      Inr \<lparr>StatusCode = 200, Header = [''Request-Port'' \<mapsto> [''9999'']], Body = Inr []\<rparr>"
    and do2: "Do (probeEnv (echo 200 ''Hello OpenShift!'' ''80'')) (probeURL canaryRoute) =
      Inr \<lparr>StatusCode = 200, Header = [''Request-Port'' \<mapsto> [''80'']],
            Body = Inr ''Hello OpenShift!''\<rparr>"
    by (simp_all add: probe_facts echo_def)
  have "testRouteEndpoint (probeEnv (echo 200 [] ''9999'')) world0 canaryRoute =
     Inr ((False, Some ExpectedBodyNotNil), sent world0 canaryRoute)"
    by (simp add: testRouteEndpoint_body [OF host req do1])
  moreover have "testRouteEndpoint (probeEnv (echo 200 ''Hello OpenShift!'' ''80'')) world0
      canaryRoute =
     Inr ((True, None),
          (sent world0 canaryRoute)\<lparr>CanaryRequestTime := [(''canary.example'', 12)]\<rparr>)"
    using marker_present
    by (simp add: testRouteEndpoint_body [OF host req do2] probe_facts)
      (simp add: sample_defs)
  moreover have "CanaryEndpointWrongPortEcho (sent world0 canaryRoute) = 0"
    by (simp add: sent_def world0_def)
  ultimately show ?thesis
    by simp
qed

lemma testRouteEndpoint_precedence_examples:
  "testRouteEndpoint (probeEnv (echo 200 ''Hello OpenShift!'' ''8080'')) world0
       (routeOn [] (strPort ''8080'')) =
     Inr ((False, Some RouteHostIsNil), world0)
   \<and> testRouteEndpoint (probeEnv (echo 503 ''Hello OpenShift!'' ''8888'')) world0 canaryRoute =
     Inr ((False, Some (ReceivedOnWrongPort ''8888'' ''8080'')),
          (sent world0 canaryRoute)\<lparr>CanaryEndpointWrongPortEcho := 1\<rparr>)"
proof -
  let ?port = "\<lparr>TargetPort = strPort ''8080''\<rparr>"
  let ?response = "\<lparr>StatusCode = 503, Header = [''Request-Port'' \<mapsto> [''8888'']],
      Body = Inr ''Hello OpenShift!''\<rparr>"
  have nohost: "Host (Route_Spec (routeOn [] (strPort ''8080''))) = []"
    by (simp add: routeOn_def)
  note first = testRouteEndpoint_precedence
    [where route = "routeOn [] (strPort ''8080'')" and w = world0
       and e = "probeEnv (echo 200 ''Hello OpenShift!'' ''8080'')",
     THEN conjunct1, THEN mp, OF nohost]
  have sentOK: "Host (Route_Spec canaryRoute) \<noteq> []
      \<and> NewRequest (probeEnv (echo 503 ''Hello OpenShift!'' ''8888'')) (probeURL canaryRoute) = None"
    by (simp add: probe_facts)
  have answered: "Do (probeEnv (echo 503 ''Hello OpenShift!'' ''8888'')) (probeURL canaryRoute) =
      Inr ?response"
    by (simp add: probe_facts echo_def)
  have read: "Body ?response = Inr ''Hello OpenShift!''"
    by simp
  have mismatch: "''Hello OpenShift!'' \<noteq> [] \<and> Contains ''Hello OpenShift!'' expectedBodyContents
      \<and> recPort ?response \<noteq> [] \<and> Port (Route_Spec canaryRoute) = Some ?port
      \<and> \<not> Contains (IntOrString_String (TargetPort ?port)) (recPort ?response)"
    using marker_present by (simp add: probe_facts)
  note second = testRouteEndpoint_precedence
    [where route = canaryRoute and w = world0 and response = ?response
       and body = "''Hello OpenShift!''" and port = ?port
       and e = "probeEnv (echo 503 ''Hello OpenShift!'' ''8888'')",
     THEN conjunct2, THEN conjunct1, THEN mp, OF sentOK,
     THEN conjunct2, THEN conjunct2, THEN mp, OF answered,
     THEN conjunct2, THEN mp, OF read,
     THEN conjunct2, THEN conjunct2, THEN mp, OF mismatch]
  from first second show ?thesis
    by (simp add: probe_facts world0_def)
qed

text \<open>
  Claim C6 against the code. On the route on port 8080, a response with the marker, the
  header value 80 and status 503: the header names another port than the route's, yet
  the probe passes the port check, because 80 occurs in 8080, and fails on the status
  code; the wrong-port counter stays at zero. The status-code failure is reported, not the
  mismatched header.
\<close>

theorem testRouteEndpoint_port_80_on_8080:
  "recPort \<lparr>StatusCode = 503, Header = [''Request-Port'' \<mapsto> [''80'']],
            Body = Inr ''Hello OpenShift!''\<rparr> = ''80''
   \<and> IntOrString_String (strPort ''8080'') = ''8080''
   \<and> testRouteEndpoint (probeEnv (echo 503 ''Hello OpenShift!'' ''80'')) world0 canaryRoute =
       Inr ((False, Some (StatusRouteNotAvailable 503)), sent world0 canaryRoute)
   \<and> CanaryEndpointWrongPortEcho (sent world0 canaryRoute) = 0"
proof -
  have host: "Host (Route_Spec canaryRoute) \<noteq> []"
    and req: "NewRequest (probeEnv d) (probeURL canaryRoute) = None" for d
    by (simp_all add: probe_facts)
  have answered: "Do (probeEnv (echo 503 ''Hello OpenShift!'' ''80'')) (probeURL canaryRoute) =
      Inr \<lparr>StatusCode = 503, Header = [''Request-Port'' \<mapsto> [''80'']],
            Body = Inr ''Hello OpenShift!''\<rparr>"
    by (simp add: probe_facts echo_def)
  have "testRouteEndpoint (probeEnv (echo 503 ''Hello OpenShift!'' ''80'')) world0 canaryRoute =
       Inr ((False, Some (StatusRouteNotAvailable 503)), sent world0 canaryRoute)"
    using marker_present
    by (simp add: testRouteEndpoint_body [OF host req answered] probe_facts)
  moreover have "CanaryEndpointWrongPortEcho (sent world0 canaryRoute) = 0"
    by (simp add: sent_def world0_def)
  ultimately show ?thesis
    by (simp add: probe_facts)
qed

text \<open>
  Claim C2 as stated fails here. At six, with a service of one port, the tick logs the failed rotation and ends: the
  counter is still six and no request has been sent.
\<close>

theorem rotation_failure_probe_counterexample:
  "tick (rotateEnv [strPort ''8080''] None) (6, world0) =
     Inr (6, log_Error (Some (FailedToRotateRoutePort ServiceHasOnlyOnePort))
               ''failed to rotate canary route endpoint'' world0)
   \<and> requests (log_Error (Some (FailedToRotateRoutePort ServiceHasOnlyOnePort))
                 ''failed to rotate canary route endpoint'' world0) = []"
proof -
  have route: "getRoute (rotateEnv [strPort ''8080''] None) = Found canaryRoute"
    and service: "getService (rotateEnv [strPort ''8080''] None) =
      Found (serviceWith [strPort ''8080''])"
    by (simp_all add: rotateEnv_def envWith_def)
  have "chooseRandomServicePort (rnd (rotateEnv [strPort ''8080''] None))
      (serviceWith [strPort ''8080'']) canaryRoute = Inr (None, Some ServiceHasOnlyOnePort)"
    by (simp add: chooseRandomServicePort_short serviceWith_def)
  then have "tick (rotateEnv [strPort ''8080''] None) (6, world0) =
     Inr (6, log_Error (Some (FailedToRotateRoutePort ServiceHasOnlyOnePort))
               ''failed to rotate canary route endpoint'' world0)"
    by (simp add: tick_rotate [OF route service] rotateRouteEndpoint_error)
  then show ?thesis
    by (simp add: log_Error_def world0_def)
qed

text \<open>
  Claim C4 as stated fails here. At six, with a service without ports, the tick neither rotates nor resets: the counter
  is still six and no update has been issued.
\<close>

theorem rotation_reset_counterexample:
  "tick (rotateEnv [] None) (6, world0) =
     Inr (6, log_Error (Some (FailedToRotateRoutePort ServiceHasNoPorts))
               ''failed to rotate canary route endpoint'' world0)
   \<and> updates (log_Error (Some (FailedToRotateRoutePort ServiceHasNoPorts))
                ''failed to rotate canary route endpoint'' world0) = []"
proof -
  have route: "getRoute (rotateEnv [] None) = Found canaryRoute"
    and service: "getService (rotateEnv [] None) = Found (serviceWith [])"
    by (simp_all add: rotateEnv_def envWith_def)
  have "chooseRandomServicePort (rnd (rotateEnv [] None)) (serviceWith []) canaryRoute =
      Inr (None, Some ServiceHasNoPorts)"
    by (simp add: chooseRandomServicePort_short serviceWith_def)
  then have "tick (rotateEnv [] None) (6, world0) =
     Inr (6, log_Error (Some (FailedToRotateRoutePort ServiceHasNoPorts))
               ''failed to rotate canary route endpoint'' world0)"
    by (simp add: tick_rotate [OF route service] rotateRouteEndpoint_error)
  then show ?thesis
    by (simp add: log_Error_def world0_def)
qed

lemma rotate_facts:
  "getRoute (rotateEnv ts u) = Found canaryRoute"
  "getService (rotateEnv ts u) = Found (serviceWith ts)"
  "updateErr (rotateEnv ts u) = u"
  "chooseRandomServicePort (rnd (rotateEnv ts u)) (serviceWith twoPorts) canaryRoute =
     Inr (Some rotatedRoute, None)"
  by (simp_all add: sample_defs twoPorts_def rotatedRoute_def chooseRandomServicePort_def
      Intn_def index_def)

theorem tick_rotation_failure_ends_tick_witness:
  "rotateRouteEndpoint (rotateEnv twoPorts (Some ''conflict'')) world0 (serviceWith twoPorts)
       canaryRoute =
     Inr ((Some canaryRoute,
           Some (FailedToUpdateCanaryRoute [] [] (ClientError ''conflict''))),
          world0\<lparr>updates := [rotatedRoute]\<rparr>)
   \<and> (\<exists>w'. tick (rotateEnv twoPorts (Some ''conflict'')) (6, world0) = Inr (6, w')
         \<and> logged w' =
             [LogError (Some (FailedToUpdateCanaryRoute [] [] (ClientError ''conflict'')))
                ''failed to rotate canary route endpoint'']
         \<and> requests w' = []
         \<and> reachable w' = Map.empty)"
proof -
  let ?e = "rotateEnv twoPorts (Some ''conflict'')"
  have failed: "rotateRouteEndpoint ?e world0 (serviceWith twoPorts) canaryRoute =
     Inr ((Some canaryRoute,
           Some (FailedToUpdateCanaryRoute [] [] (ClientError ''conflict''))),
          world0\<lparr>updates := [rotatedRoute]\<rparr>)"
    by (simp add: rotateRouteEndpoint_chosen [OF rotate_facts(4)] rotate_facts(3))
      (simp add: sample_defs rotatedRoute_def)
  from tick_rotation_failure_ends_tick [OF rotate_facts(1) rotate_facts(2) failed] failed
  show ?thesis
    by (auto simp: world0_def)
qed

theorem tick_rotation_write_failure_retried_witness:
  "\<exists>w1 w2. tick (rotateEnv twoPorts (Some ''timeout'')) (6, world0) = Inr (6, w1)
     \<and> updates w1 = [rotatedRoute]
     \<and> requests w1 = []
     \<and> run [rotateEnv twoPorts (Some ''timeout''), rotateEnv twoPorts None] (6, world0) =
         Inr (0, w2)
     \<and> updates w2 = [rotatedRoute, rotatedRoute]"
proof -
  let ?e = "rotateEnv twoPorts (Some ''timeout'')"
  let ?e' = "rotateEnv twoPorts None"
  have werr: "updateErr ?e = Some ''timeout''" and werr': "updateErr ?e' = None"
    by (simp_all add: rotate_facts(3))
  have r: "getRoute ?e = Found canaryRoute"
    and s: "getService ?e = Found (serviceWith twoPorts)"
    and c: "chooseRandomServicePort (rnd ?e) (serviceWith twoPorts) canaryRoute =
      Inr (Some rotatedRoute, None)"
    by (simp_all only: rotate_facts)
  have next_tick: "getRoute ?e' = Found canaryRoute \<and> getService ?e' = Found (serviceWith twoPorts)
      \<and> chooseRandomServicePort (rnd ?e') (serviceWith twoPorts) canaryRoute =
          Inr (Some rotatedRoute, None)"
    by (simp only: rotate_facts simp_thms)
  from tick_rotation_write_failure_retried [OF r s c werr, of world0]
  obtain w1 where first: "tick ?e (6, world0) = Inr (6, w1)"
    and u1: "updates w1 = updates world0 @ [rotatedRoute]"
    and r1: "requests w1 = requests world0"
    and again: "\<forall>e' route' service' updated'.
                 getRoute e' = Found route' \<and> getService e' = Found service'
                 \<and> chooseRandomServicePort (rnd e') service' route' = Inr (Some updated', None) \<longrightarrow>
                 (\<exists>c2 w2. run [?e, e'] (6, world0) = Inr (c2, w2)
                    \<and> updates w2 = updates w1 @ [updated']
                    \<and> (c2 = 0 \<longleftrightarrow> updateErr e' = None)
                    \<and> (c2 = 6 \<longleftrightarrow> updateErr e' \<noteq> None))"
    by (elim exE conjE)
  from again next_tick obtain c2 w2 where "run [?e, ?e'] (6, world0) = Inr (c2, w2)"
    and "updates w2 = updates w1 @ [rotatedRoute]" and "c2 = 0 \<longleftrightarrow> updateErr ?e' = None"
    by blast
  with first u1 r1 werr' show ?thesis
    by (auto simp: world0_def)
qed

lemma good_probe:
  "testRouteEndpoint goodEnv v canaryRoute =
     Inr ((True, None),
          (sent v canaryRoute)\<lparr>CanaryRequestTime :=
             CanaryRequestTime v @ [(''canary.example'', 12)]\<rparr>)"
proof -
  have host: "Host (Route_Spec canaryRoute) \<noteq> []"
    and req: "NewRequest goodEnv (probeURL canaryRoute) = None"
    and answered: "Do goodEnv (probeURL canaryRoute) =
      Inr \<lparr>StatusCode = 200, Header = [''Request-Port'' \<mapsto> [''8080'']],
            Body = Inr ''Hello OpenShift!''\<rparr>"
    by (simp_all add: goodEnv_def probe_facts echo_def)
  show ?thesis
    using marker_present
    by (simp add: testRouteEndpoint_body [OF host req answered] probe_facts)
      (simp add: goodEnv_def sample_defs)
qed

theorem polling_rotation_counter_witness:
  "\<exists>w6 w7. startCanaryRoutePolling (replicate 6 goodEnv) world0 = Inr (6, w6)
     \<and> startCanaryRoutePolling (replicate 6 goodEnv @ [rotateEnv twoPorts None]) world0 =
         Inr (0, w7)
     \<and> requests w7 = requests w6
     \<and> updates w7 = updates w6 @ [rotatedRoute]"
proof -
  let ?e = "rotateEnv twoPorts None"
  have six: "length (replicate 6 goodEnv) = 6
      \<and> (\<forall>x \<in> set (replicate 6 goodEnv). \<exists>rt. getRoute x = Found rt
            \<and> (\<forall>v. \<exists>v1. testRouteEndpoint x v rt = Inr ((True, None), v1)))"
  proof -
    have "getRoute goodEnv = Found canaryRoute"
      by (simp add: goodEnv_def probeEnv_def envWith_def)
    moreover have "\<forall>v. \<exists>v1. testRouteEndpoint goodEnv v canaryRoute = Inr ((True, None), v1)"
      by (simp add: good_probe)
    ultimately show ?thesis
      by auto
  qed
  have seventh: "getRoute ?e = Found canaryRoute \<and> getService ?e = Found (serviceWith twoPorts)
      \<and> chooseRandomServicePort (rnd ?e) (serviceWith twoPorts) canaryRoute =
          Inr (Some rotatedRoute, None)
      \<and> updateErr ?e = None"
    by (simp only: rotate_facts simp_thms)
  from polling_rotation_counter
    [where es = "replicate 6 goodEnv" and w = world0 and e = ?e and route = canaryRoute
       and service = "serviceWith twoPorts" and updated = rotatedRoute,
     THEN conjunct2, THEN conjunct2, THEN conjunct2, THEN conjunct2, THEN conjunct2,
     THEN conjunct2, THEN mp, OF six]
  obtain w6 where upto: "startCanaryRoutePolling (replicate 6 goodEnv) world0 = Inr (6, w6)"
    and rotation: "getRoute ?e = Found canaryRoute \<and> getService ?e = Found (serviceWith twoPorts)
      \<and> chooseRandomServicePort (rnd ?e) (serviceWith twoPorts) canaryRoute =
          Inr (Some rotatedRoute, None)
      \<and> updateErr ?e = None \<longrightarrow>
        (\<exists>w7. startCanaryRoutePolling (replicate 6 goodEnv @ [?e]) world0 = Inr (0, w7)
           \<and> requests w7 = requests w6 \<and> updates w7 = updates w6 @ [rotatedRoute])"
    by (elim exE conjE)
  from rotation [THEN mp, OF seventh] upto show ?thesis
    by blast
qed

end
